theory Spec2Isabelle
  imports Main "HOL-Library.Word"
begin

section \<open>The voice chat component: decoding the audio of a response\<close>

text \<open>
  The repository holds several variants of one React component, \<^verbatim>\<open>VoiceChat\<close>:
  \<^item> \<^verbatim>\<open>src/unnamed/part_000\<close>: the variant with an explicit \<^verbatim>\<open>status\<close> state, an HTTP status
    check, an empty-payload message and a playback handle (\<^verbatim>\<open>audioRef\<close>);
  \<^item> \<^verbatim>\<open>src/frontend/my-project/src/main-page.tsx\<close>: the variant built on a recorder hook and an
    ffmpeg conversion;
  \<^item> \<^verbatim>\<open>src/unnamed/part_001\<close> (first component): the variant that drives \<^verbatim>\<open>MediaRecorder\<close> itself.

  JavaScript strings are modelled as \<open>string\<close>, one \<open>char\<close> per code unit; the bytes of a
  \<^verbatim>\<open>Uint8Array\<close> are \<open>8 word\<close>.
\<close>

type_synonym byte = "8 word"

datatype js_error = TypeError | SyntaxError | NetworkError | HttpError nat | RemoteError
  | ConvertError | DecodeError | DeviceError

subsection \<open>The built-ins the decoders call\<close>

text \<open>\<^verbatim>\<open>StrWhiteSpaceChar\<close> of the language, on the code units below 256.\<close>

definition isStrWhiteSpace :: "char \<Rightarrow> bool" where
  "isStrWhiteSpace c = (of_char c \<in> {9, 10, 11, 12, 13, 32, 160 :: nat})"

text \<open>The line terminators, which the pattern \<^verbatim>\<open>.\<close> does not match.\<close>

definition isLineTerminator :: "char \<Rightarrow> bool" where
  "isLineTerminator c = (of_char c \<in> {10, 13 :: nat})"

definition isHexDigit :: "char \<Rightarrow> bool" where
  "isHexDigit c = (let n = (of_char c :: nat) in
     (48 \<le> n \<and> n \<le> 57) \<or> (97 \<le> n \<and> n \<le> 102) \<or> (65 \<le> n \<and> n \<le> 70))"

definition hexVal :: "char \<Rightarrow> int" where
  "hexVal c = (let n = (of_char c :: nat) in
     if 48 \<le> n \<and> n \<le> 57 then int n - 48
     else if 97 \<le> n \<and> n \<le> 102 then int n - 87
     else if 65 \<le> n \<and> n \<le> 70 then int n - 55
     else 0)"

definition digitsValue :: "string \<Rightarrow> int" where
  "digitsValue Z = foldl (\<lambda>acc c. 16 * acc + hexVal c) 0 Z"

text \<open>
  \<^verbatim>\<open>parseInt(str, 16)\<close>: leading white space is dropped, then a sign, then a \<^verbatim>\<open>0x\<close> or
  \<^verbatim>\<open>0X\<close> prefix; the longest run of hexadecimal digits that follows is the value, and
  \<^verbatim>\<open>NaN\<close> (\<open>None\<close>) is returned when that run is empty.
\<close>

definition parseInt16 :: "string \<Rightarrow> int option" where
  "parseInt16 str =
     (let S = dropWhile isStrWhiteSpace str;
          sign = (if S \<noteq> [] \<and> hd S = CHR ''-'' then - 1 else 1 :: int);
          S1 = (if S \<noteq> [] \<and> (hd S = CHR ''+'' \<or> hd S = CHR ''-'') then tl S else S);
          S2 = (if take 2 S1 = ''0x'' \<or> take 2 S1 = ''0X'' then drop 2 S1 else S1);
          Z = takeWhile isHexDigit S2
      in if Z = [] then None else Some (sign * digitsValue Z))"

text \<open>Storing a number into a \<^verbatim>\<open>Uint8Array\<close>: \<^verbatim>\<open>NaN\<close> becomes 0, an integer wraps modulo 256.\<close>

definition toUint8 :: "int option \<Rightarrow> byte" where
  "toUint8 v = (case v of None \<Rightarrow> 0 | Some n \<Rightarrow> word_of_int n)"

text \<open>\<^verbatim>\<open>str.substr(i, n)\<close> for \<open>0 \<le> i\<close>.\<close>

definition substr :: "string \<Rightarrow> nat \<Rightarrow> nat \<Rightarrow> string" where
  "substr s i n = take n (drop i s)"

text \<open>\<^verbatim>\<open>buffer[k] = v\<close> on a typed array: a write past the end is ignored.\<close>

definition typedSet :: "byte list \<Rightarrow> nat \<Rightarrow> byte \<Rightarrow> byte list" where
  "typedSet buffer k v = (if k < length buffer then buffer[k := v] else buffer)"

subsection \<open>The index loop of \<^verbatim>\<open>playAudioResponse\<close> (part\_000)\<close>

text \<open>
  \<^verbatim>\<open>
  const buffer = new Uint8Array(audioHex.length / 2);
  for (let i = 0; i < audioHex.length; i += 2) {
    buffer[i/2] = parseInt(audioHex.substr(i, 2), 16);
  }
  \<close>
  \<^verbatim>\<open>new Uint8Array(n)\<close> truncates a fractional length, and \<open>i\<close> stays even, so \<^verbatim>\<open>i/2\<close> is
  the integer \<open>i div 2\<close>.
\<close>

function decodeLoop :: "string \<Rightarrow> nat \<Rightarrow> byte list \<Rightarrow> byte list" where
  "decodeLoop audioHex i buffer =
     (if i < length audioHex
      then decodeLoop audioHex (i + 2)
             (typedSet buffer (i div 2) (toUint8 (parseInt16 (substr audioHex i 2))))
      else buffer)"
  by pat_completeness auto
termination
  by (relation "measure (\<lambda>(audioHex, i, buffer). length audioHex - i)") auto

definition decodeHexLoop :: "string \<Rightarrow> byte list" where
  "decodeHexLoop audioHex = decodeLoop audioHex 0 (replicate (length audioHex div 2) 0)"

subsection \<open>The pattern-based decoder of main-page.tsx and part\_001\<close>

text \<open>
  \<^verbatim>\<open>
  new Uint8Array(data.audio.match(/.{1,2}/g).map((byte: string) => parseInt(byte, 16)))
  \<close>
  \<^verbatim>\<open>match\<close> with the \<^verbatim>\<open>g\<close> flag returns every match, scanning left to right and greedily,
  or \<^verbatim>\<open>null\<close> when there is none; here \<open>[]\<close> stands for \<^verbatim>\<open>null\<close>.
\<close>

fun matchPairs :: "string \<Rightarrow> string list" where
  "matchPairs [] = []"
| "matchPairs [c] = (if isLineTerminator c then [] else [[c]])"
| "matchPairs (c # d # rest) =
     (if isLineTerminator c then matchPairs (d # rest)
      else if isLineTerminator d then [c] # matchPairs rest
      else [c, d] # matchPairs rest)"

text \<open>
  The field \<^verbatim>\<open>data.audio\<close> is \<open>None\<close> when it is absent from the response. Calling
  \<^verbatim>\<open>match\<close> on \<^verbatim>\<open>undefined\<close>, or \<^verbatim>\<open>map\<close> on \<^verbatim>\<open>null\<close>, throws a \<^verbatim>\<open>TypeError\<close>.
\<close>

definition decodeHexRegex :: "string option \<Rightarrow> js_error + byte list" where
  "decodeHexRegex audio =
     (case audio of
        None \<Rightarrow> Inl TypeError
      | Some s \<Rightarrow>
          (case matchPairs s of
             [] \<Rightarrow> Inl TypeError
           | ms \<Rightarrow> Inr (map (\<lambda>byte. toUint8 (parseInt16 byte)) ms)))"

subsection \<open>The encoder of the remote service\<close>

text \<open>
  Modelled from the spec: the digits of the hexadecimal encoder. The encoder runs in the
  remote chat service, which is not part of the repository; the example of the spec writes
  the bytes \<^verbatim>\<open>48 65 6C 6C 6F\<close> as \<^verbatim>\<open>48656c6c6f\<close>, in lower case.
\<close>

definition hexChar :: "nat \<Rightarrow> char" where
  "hexChar n = ''0123456789abcdef'' ! n"

text \<open>
  Modelled from the spec: the hexadecimal encoder of the remote chat service, which is not
  part of the repository. The spec fixes its format: each byte is one pair of hexadecimal
  characters, high nibble first.
\<close>

definition hexEncode :: "byte list \<Rightarrow> string" where
  "hexEncode bs = concat (map (\<lambda>b. [hexChar (unat b div 16), hexChar (unat b mod 16)]) bs)"

text \<open>The value of one pair of hexadecimal characters, high nibble first.\<close>

definition pairByte :: "char \<Rightarrow> char \<Rightarrow> byte" where
  "pairByte hi lo = word_of_int (16 * hexVal hi + hexVal lo)"

fun pairBytes :: "string \<Rightarrow> byte list" where
  "pairBytes (hi # lo # rest) = pairByte hi lo # pairBytes rest"
| "pairBytes _ = []"


section \<open>The component state and its environment\<close>

datatype role = User | Assistant

text \<open>
  A message of the log. Its content is whatever the handler stores: a literal string, or a
  field read from the response, which is \<open>None\<close> (\<^verbatim>\<open>undefined\<close>) when the response lacks it.
\<close>

record message =
  role :: role
  content :: "string option"

datatype status = Idle | Recording | Processing

record blob =
  blobBytes :: "byte list"
  blobType :: string

definition blobSize :: "blob \<Rightarrow> nat" where
  "blobSize b = length (blobBytes b)"

text \<open>The single outbound request: a POST of a form with one file field.\<close>

record request =
  requestUrl :: string
  requestMethod :: string
  formField :: string
  formBlob :: blob
  formFilename :: string

text \<open>
  The body of the response once parsed, with the fields the handlers read, each absent or a
  string. \<open>JsonNull\<close> is the body \<^verbatim>\<open>null\<close>, on which reading a field throws; \<open>Malformed\<close> is a
  body that \<^verbatim>\<open>response.json()\<close> rejects.
\<close>

record response_data =
  dataStatus :: "string option"
  dataTranscript :: "string option"
  dataResponseText :: "string option"
  dataAudio :: "string option"
  dataMessage :: "string option"

datatype json_body = Malformed | JsonNull | JsonObject response_data

text \<open>What \<^verbatim>\<open>fetch\<close> does: it rejects, or it resolves with an HTTP status and a body.\<close>

datatype fetch_result = Rejected | Response nat json_body

text \<open>\<^verbatim>\<open>response.ok\<close>: the status is in the range 200 to 299.\<close>

definition ok :: "nat \<Rightarrow> bool" where
  "ok st = (200 \<le> st \<and> st \<le> 299)"

text \<open>An audio element (\<^verbatim>\<open>new Audio(url)\<close>): its identity and the object URL it plays.\<close>

record audio =
  audioId :: nat
  audioSrc :: nat

text \<open>
  What the component does to its host, in the order it does it: calls of \<^verbatim>\<open>setMessages\<close>
  (with the messages appended), requests, object URLs, playback, and the capture device.
  \<open>AudioEnded\<close> is the host reporting that an element has played to its end.
\<close>

datatype effect =
    SetMessages "message list"
  | Fetch request
  | CreateObjectURL nat blob
  | RevokeObjectURL nat
  | AudioPlay nat
  | AudioBlocked nat
  | AudioPause nat
  | AudioEnded nat
  | GetUserMedia nat
  | TrackStop nat

text \<open>
  The state every variant has (\<^verbatim>\<open>useState\<close>), with the log of effects and the counter that
  names the objects the host creates (streams, URLs, audio elements).
\<close>

record vc =
  messages :: "message list"
  isLoading :: bool
  transcript :: string
  effects :: "effect list"
  nextId :: nat

text \<open>\<^verbatim>\<open>setMessages((prev) => [...prev, m1, ...])\<close>\<close>

definition setMessages :: "message list \<Rightarrow> 'a vc_scheme \<Rightarrow> 'a vc_scheme" where
  "setMessages new s = s\<lparr>messages := messages s @ new, effects := effects s @ [SetMessages new]\<rparr>"

definition emit :: "effect \<Rightarrow> 'a vc_scheme \<Rightarrow> 'a vc_scheme" where
  "emit e s = s\<lparr>effects := effects s @ [e]\<rparr>"

definition assistantSays :: "string \<Rightarrow> message" where
  "assistantSays text = \<lparr>role = Assistant, content = Some text\<rparr>"

definition chatRequest :: "blob \<Rightarrow> string \<Rightarrow> request" where
  "chatRequest b filename =
     \<lparr>requestUrl = ''http://127.0.0.1:5000/api/chat'', requestMethod = ''POST'',
      formField = ''audio'', formBlob = b, formFilename = filename\<rparr>"

text \<open>The audio elements playing after a run of effects, and the streams still captured.\<close>

fun playingStep :: "nat list \<Rightarrow> effect \<Rightarrow> nat list" where
  "playingStep cur (AudioPlay a) = (if a \<in> set cur then cur else cur @ [a])"
| "playingStep cur (AudioPause a) = removeAll a cur"
| "playingStep cur (AudioEnded a) = removeAll a cur"
| "playingStep cur _ = cur"

definition playingNow :: "effect list \<Rightarrow> nat list" where
  "playingNow es = foldl playingStep [] es"

fun soloFrom :: "nat list \<Rightarrow> effect list \<Rightarrow> bool" where
  "soloFrom cur [] = (length cur \<le> 1)"
| "soloFrom cur (e # es) = (length cur \<le> 1 \<and> soloFrom (playingStep cur e) es)"

text \<open>At no point of the run do two audio elements play.\<close>

definition neverTwoPlaying :: "effect list \<Rightarrow> bool" where
  "neverTwoPlaying es = soloFrom [] es"

fun heldStep :: "nat list \<Rightarrow> effect \<Rightarrow> nat list" where
  "heldStep cur (GetUserMedia st) = cur @ [st]"
| "heldStep cur (TrackStop st) = removeAll st cur"
| "heldStep cur _ = cur"

definition heldStreams :: "effect list \<Rightarrow> nat list" where
  "heldStreams es = foldl heldStep [] es"

definition fetches :: "effect list \<Rightarrow> request list" where
  "fetches es = concat (map (\<lambda>e. case e of Fetch rq \<Rightarrow> [rq] | _ \<Rightarrow> []) es)"

section \<open>The variant of part\_000\<close>

record vc0 = vc +
  status :: status
  playbackError :: "string option"
  audioRef :: "audio option"
  mediaRecorder :: "nat option"
  audioChunks :: "blob list"

definition init0 :: vc0 where
  "init0 = \<lparr>messages = [], isLoading = False, transcript = [], effects = [], nextId = 0,
            status = Idle, playbackError = None, audioRef = None, mediaRecorder = None,
            audioChunks = []\<rparr>"

text \<open>
  \<^verbatim>\<open>playAudioResponse\<close>. \<open>blocked\<close> says whether the host refuses to start playback, in
  which case the promise of \<^verbatim>\<open>audio.play()\<close> rejects and its handler sets the advisory. No
  statement of the \<^verbatim>\<open>try\<close> block throws on a string, so its \<^verbatim>\<open>catch\<close> is never entered.
\<close>

definition playAudioResponse :: "bool \<Rightarrow> string \<Rightarrow> vc0 \<Rightarrow> vc0" where
  "playAudioResponse blocked audioHex s =
     (let buffer = decodeHexLoop audioHex;
          audioBlob = \<lparr>blobBytes = buffer, blobType = ''audio/wav''\<rparr>;
          audioUrl = nextId s;
          s1 = emit (CreateObjectURL audioUrl audioBlob) (s\<lparr>nextId := nextId s + 1\<rparr>);
          s2 = (case audioRef s1 of
                  None \<Rightarrow> s1
                | Some old \<Rightarrow>
                    emit (RevokeObjectURL (audioSrc old)) (emit (AudioPause (audioId old)) s1));
          a = \<lparr>audioId = nextId s2, audioSrc = audioUrl\<rparr>;
          s3 = s2\<lparr>nextId := nextId s2 + 1, audioRef := Some a\<rparr>
      in if blocked
         then (emit (AudioBlocked (audioId a)) s3)
                \<lparr>playbackError := Some ''Audio playback blocked. Click to play response.''\<rparr>
         else emit (AudioPlay (audioId a)) s3)"

text \<open>\<^verbatim>\<open>audio.onended\<close>, for the element \<open>a\<close> that \<^verbatim>\<open>playAudioResponse\<close> created.\<close>

definition onended0 :: "audio \<Rightarrow> vc0 \<Rightarrow> vc0" where
  "onended0 a s =
     (emit (RevokeObjectURL (audioSrc a)) (emit (AudioEnded (audioId a)) s))
       \<lparr>playbackError := None\<rparr>"

text \<open>The button under the advisory: \<^verbatim>\<open>audioRef.current?.play()\<close>.\<close>

definition replay0 :: "vc0 \<Rightarrow> vc0" where
  "replay0 s = (case audioRef s of None \<Rightarrow> s | Some a \<Rightarrow> emit (AudioPlay (audioId a)) s)"

text \<open>
  The \<^verbatim>\<open>try\<close> block of \<^verbatim>\<open>handleSendAudio\<close>: the error thrown, if any, with the state reached.
\<close>

definition sendAudioTry0 ::
  "(request \<Rightarrow> fetch_result) \<Rightarrow> bool \<Rightarrow> blob \<Rightarrow> vc0 \<Rightarrow> js_error option \<times> vc0" where
  "sendAudioTry0 net blocked audioBlob s =
     (let rq = chatRequest audioBlob ''recording.wav'';
          s1 = emit (Fetch rq) s
      in case net rq of
           Rejected \<Rightarrow> (Some NetworkError, s1)
         | Response st body \<Rightarrow>
             if \<not> ok st then (Some (HttpError st), s1)
             else (case body of
                     Malformed \<Rightarrow> (Some SyntaxError, s1)
                   | JsonNull \<Rightarrow> (Some TypeError, s1)
                   | JsonObject d \<Rightarrow>
                       if dataStatus d = Some ''success''
                       then (let s2 = setMessages
                                        [\<lparr>role = User, content = dataTranscript d\<rparr>,
                                         \<lparr>role = Assistant, content = dataResponseText d\<rparr>] s1
                             in (None,
                                 case dataAudio d of
                                   None \<Rightarrow> s2
                                 | Some a \<Rightarrow> if a = [] then s2 else playAudioResponse blocked a s2))
                       else (Some RemoteError, s1)))"

definition noAudioRecorded0 :: "vc0 \<Rightarrow> vc0" where
  "noAudioRecorded0 s =
     (setMessages [assistantSays ''No audio recorded. Please try again.''] s)
       \<lparr>isLoading := False, status := Idle\<rparr>"

text \<open>
  \<^verbatim>\<open>handleSendAudio\<close>. The argument is \<open>None\<close> for a blob that is \<^verbatim>\<open>null\<close>, which the guard
  tests although the parameter's type excludes it.
\<close>

definition handleSendAudio0 ::
  "(request \<Rightarrow> fetch_result) \<Rightarrow> bool \<Rightarrow> blob option \<Rightarrow> vc0 \<Rightarrow> vc0" where
  "handleSendAudio0 net blocked audioBlob s =
     (case audioBlob of
        None \<Rightarrow> noAudioRecorded0 s
      | Some b \<Rightarrow>
          if blobSize b = 0 then noAudioRecorded0 s
          else (let s1 = s\<lparr>isLoading := True, status := Processing\<rparr>;
                    (err, s2) = sendAudioTry0 net blocked b s1;
                    s3 = (case err of
                            None \<Rightarrow> s2
                          | Some e \<Rightarrow>
                              setMessages
                                [assistantSays ''Error: Could not process audio. Please try again.'']
                                s2)
                in s3\<lparr>isLoading := False, status := Idle\<rparr>))"

text \<open>
  \<^verbatim>\<open>handleSendAudio\<close> suspends when it has called \<^verbatim>\<open>fetch\<close>, and events of the host and other
  handlers run before it resumes. The definitions that follow cut it at that point: its
  statements up to the call, and its statements from the resolution of the call on (the
  rest of the \<^verbatim>\<open>try\<close> block, then \<^verbatim>\<open>catch\<close> and \<^verbatim>\<open>finally\<close>). Between the resolution of
  \<^verbatim>\<open>fetch\<close> and that of \<^verbatim>\<open>response.json()\<close> the handler changes nothing, so one cut is enough.
\<close>

definition sendAudioBegin0 :: "blob \<Rightarrow> vc0 \<Rightarrow> vc0" where
  "sendAudioBegin0 audioBlob s =
     emit (Fetch (chatRequest audioBlob ''recording.wav''))
       (s\<lparr>isLoading := True, status := Processing\<rparr>)"

definition sendAudioReply0 :: "bool \<Rightarrow> fetch_result \<Rightarrow> vc0 \<Rightarrow> js_error option \<times> vc0" where
  "sendAudioReply0 blocked result s1 =
     (case result of
        Rejected \<Rightarrow> (Some NetworkError, s1)
      | Response st body \<Rightarrow>
          if \<not> ok st then (Some (HttpError st), s1)
          else (case body of
                  Malformed \<Rightarrow> (Some SyntaxError, s1)
                | JsonNull \<Rightarrow> (Some TypeError, s1)
                | JsonObject d \<Rightarrow>
                    if dataStatus d = Some ''success''
                    then (let s2 = setMessages
                                     [\<lparr>role = User, content = dataTranscript d\<rparr>,
                                      \<lparr>role = Assistant, content = dataResponseText d\<rparr>] s1
                          in (None,
                              case dataAudio d of
                                None \<Rightarrow> s2
                              | Some a \<Rightarrow> if a = [] then s2 else playAudioResponse blocked a s2))
                    else (Some RemoteError, s1)))"

definition sendAudioEnd0 :: "bool \<Rightarrow> fetch_result \<Rightarrow> vc0 \<Rightarrow> vc0" where
  "sendAudioEnd0 blocked result s1 =
     (let (err, s2) = sendAudioReply0 blocked result s1;
          s3 = (case err of
                  None \<Rightarrow> s2
                | Some e \<Rightarrow>
                    setMessages
                      [assistantSays ''Error: Could not process audio. Please try again.''] s2)
      in s3\<lparr>isLoading := False, status := Idle\<rparr>)"


subsection \<open>The recorder of part\_000\<close>

text \<open>
  \<^verbatim>\<open>recordAudio().start\<close>: \<open>granted\<close> says whether \<^verbatim>\<open>getUserMedia\<close> resolves; if it rejects
  the error reaches the caller. The recorder is identified with the stream it records.
\<close>

definition recorderStart0 :: "bool \<Rightarrow> vc0 \<Rightarrow> js_error option \<times> vc0" where
  "recorderStart0 granted s =
     (if \<not> granted then (Some DeviceError, s)
      else (let stream = nextId s;
                s1 = emit (GetUserMedia stream) (s\<lparr>nextId := nextId s + 1\<rparr>)
            in (None, s1\<lparr>mediaRecorder := Some stream, audioChunks := []\<rparr>)))"

text \<open>\<^verbatim>\<open>mediaRecorder.ondataavailable\<close>\<close>

definition ondataavailable0 :: "blob \<Rightarrow> vc0 \<Rightarrow> vc0" where
  "ondataavailable0 chunk s =
     (if blobSize chunk > 0 then s\<lparr>audioChunks := audioChunks s @ [chunk]\<rparr> else s)"

text \<open>
  \<^verbatim>\<open>recordAudio().stop\<close>: the recorder delivers its last chunk, then \<^verbatim>\<open>onstop\<close> builds the
  blob from the chunks. Nothing here touches the stream. Calling it before any start reads
  \<^verbatim>\<open>mediaRecorder\<close> while it is \<^verbatim>\<open>undefined\<close>.
\<close>

definition recorderStop0 :: "blob \<Rightarrow> vc0 \<Rightarrow> (js_error + blob) \<times> vc0" where
  "recorderStop0 lastChunk s =
     (case mediaRecorder s of
        None \<Rightarrow> (Inl TypeError, s)
      | Some stream \<Rightarrow>
          (let s1 = ondataavailable0 lastChunk s
           in (Inr \<lparr>blobBytes = concat (map blobBytes (audioChunks s1)), blobType = ''audio/webm''\<rparr>,
               s1)))"

definition recordingError0 :: "vc0 \<Rightarrow> vc0" where
  "recordingError0 s =
     (setMessages [assistantSays ''Sorry, I couldn't record audio. Please try again.''] s)
       \<lparr>status := Idle\<rparr>"

text \<open>
  \<^verbatim>\<open>toggleRecording\<close>. \<open>transcode\<close> stands for \<^verbatim>\<open>decodeAudioData\<close> followed by \<^verbatim>\<open>toWav\<close>, which
  the host and a library provide: it yields the bytes of the WAV file or throws.
\<close>

definition toggleRecording0 ::
  "bool \<Rightarrow> blob \<Rightarrow> (blob \<Rightarrow> js_error + byte list) \<Rightarrow> (request \<Rightarrow> fetch_result) \<Rightarrow> bool
     \<Rightarrow> vc0 \<Rightarrow> vc0" where
  "toggleRecording0 granted lastChunk transcode net blocked s =
     (if status s = Recording
      then (let s1 = s\<lparr>status := Processing\<rparr>
            in case recorderStop0 lastChunk s1 of
                 (Inl e, s2) \<Rightarrow> recordingError0 s2
               | (Inr webmBlob, s2) \<Rightarrow>
                   (case transcode webmBlob of
                      Inl e \<Rightarrow> recordingError0 s2
                    | Inr wavBuffer \<Rightarrow>
                        handleSendAudio0 net blocked
                          (Some \<lparr>blobBytes = wavBuffer, blobType = ''audio/wav''\<rparr>) s2))
      else (case recorderStart0 granted s of
              (Some e, s1) \<Rightarrow> recordingError0 s1
            | (None, s1) \<Rightarrow> s1\<lparr>status := Recording\<rparr>))"

section \<open>The variants of main-page.tsx and part\_001\<close>

text \<open>
  The three statements that follow the decoding in these variants:
  \<^verbatim>\<open>new Blob([audioBytes], ...)\<close>, \<^verbatim>\<open>URL.createObjectURL\<close>, \<^verbatim>\<open>new Audio(audioUrl).play()\<close>. No
  handle is kept, and a rejected \<^verbatim>\<open>play()\<close> is not handled.
\<close>

definition playDecoded :: "bool \<Rightarrow> byte list \<Rightarrow> 'a vc_scheme \<Rightarrow> 'a vc_scheme" where
  "playDecoded blocked audioBytes s =
     (let audioBlob = \<lparr>blobBytes = audioBytes, blobType = ''audio/wav''\<rparr>;
          audioUrl = nextId s;
          s1 = emit (CreateObjectURL audioUrl audioBlob) (s\<lparr>nextId := nextId s + 1\<rparr>);
          a = nextId s1;
          s2 = s1\<lparr>nextId := nextId s1 + 1\<rparr>
      in emit (if blocked then AudioBlocked a else AudioPlay a) s2)"

text \<open>
  The part of the \<^verbatim>\<open>try\<close> block of \<^verbatim>\<open>handleSendAudio\<close> that follows \<^verbatim>\<open>fetch\<close>, the same
  statements in main-page.tsx (lines 70 to 87) and part\_001 (lines 73 to 92). The HTTP
  status is not read.
\<close>

definition audioReply ::
  "bool \<Rightarrow> fetch_result \<Rightarrow> 'a vc_scheme \<Rightarrow> js_error option \<times> 'a vc_scheme" where
  "audioReply blocked result s =
     (case result of
        Rejected \<Rightarrow> (Some NetworkError, s)
      | Response st body \<Rightarrow>
          (case body of
             Malformed \<Rightarrow> (Some SyntaxError, s)
           | JsonNull \<Rightarrow> (Some TypeError, s)
           | JsonObject d \<Rightarrow>
               if dataStatus d = Some ''success''
               then (let s1 = setMessages
                                [\<lparr>role = User, content = dataTranscript d\<rparr>,
                                 \<lparr>role = Assistant, content = dataResponseText d\<rparr>] s
                     in case decodeHexRegex (dataAudio d) of
                          Inl e \<Rightarrow> (Some e, s1)
                        | Inr audioBytes \<Rightarrow> (None, playDecoded blocked audioBytes s1))
               else (Some RemoteError, s)))"

text \<open>The \<^verbatim>\<open>catch\<close> and \<^verbatim>\<open>finally\<close> blocks of \<^verbatim>\<open>handleSendAudio\<close> in both files.\<close>

definition audioFinish :: "js_error option \<times> 'a vc_scheme \<Rightarrow> 'a vc_scheme" where
  "audioFinish r =
     (case r of
        (err, s) \<Rightarrow>
          (case err of
             None \<Rightarrow> s
           | Some e \<Rightarrow>
               setMessages [assistantSays ''Sorry, I couldn't process that. Please try again.''] s)
            \<lparr>isLoading := False\<rparr>)"

text \<open>
  \<^verbatim>\<open>handleSendAudio\<close> of main-page.tsx. \<open>convert\<close> stands for \<^verbatim>\<open>convertToWav\<close>, which runs an
  external ffmpeg: it yields the converted blob or throws.
\<close>

definition handleSendAudio_main ::
  "(blob \<Rightarrow> js_error + blob) \<Rightarrow> (request \<Rightarrow> fetch_result) \<Rightarrow> bool \<Rightarrow> blob option
     \<Rightarrow> 'a vc_scheme \<Rightarrow> 'a vc_scheme" where
  "handleSendAudio_main convert net blocked audioBlob s =
     (case audioBlob of
        None \<Rightarrow> s
      | Some b \<Rightarrow>
          (let s1 = s\<lparr>isLoading := True\<rparr>
           in audioFinish
                (case convert b of
                   Inl e \<Rightarrow> (Some e, s1)
                 | Inr wavBlob \<Rightarrow>
                     (let rq = chatRequest wavBlob ''recording.wav''
                      in audioReply blocked (net rq) (emit (Fetch rq) s1)))))"

text \<open>\<^verbatim>\<open>handleSendAudio\<close> of part\_001: the recorded blob is sent as it is.\<close>

definition handleSendAudio1 ::
  "(request \<Rightarrow> fetch_result) \<Rightarrow> bool \<Rightarrow> blob option \<Rightarrow> 'a vc_scheme \<Rightarrow> 'a vc_scheme" where
  "handleSendAudio1 net blocked audioBlob s =
     (case audioBlob of
        None \<Rightarrow> s
      | Some b \<Rightarrow>
          (let s1 = s\<lparr>isLoading := True\<rparr>;
               rq = chatRequest b ''recording.wav''
           in audioFinish (audioReply blocked (net rq) (emit (Fetch rq) s1))))"

subsection \<open>\<^verbatim>\<open>handleSendText\<close>\<close>

text \<open>\<^verbatim>\<open>String.prototype.trim\<close>\<close>

definition trim :: "string \<Rightarrow> string" where
  "trim s = rev (dropWhile isStrWhiteSpace (rev (dropWhile isStrWhiteSpace s)))"

text \<open>The bytes of a string stored in a blob (UTF-8, for code units below 256).\<close>

definition utf8 :: "string \<Rightarrow> byte list" where
  "utf8 s = concat (map (\<lambda>c. let n = (of_char c :: nat) in
                                if n < 128 then [of_nat n]
                                else [of_nat (192 + n div 64), of_nat (128 + n mod 64)]) s)"

definition textRequest :: "string \<Rightarrow> request" where
  "textRequest userMessage =
     chatRequest \<lparr>blobBytes = utf8 userMessage, blobType = ''text/plain''\<rparr> ''text.wav''"

text \<open>The \<^verbatim>\<open>try\<close> block of \<^verbatim>\<open>handleSendText\<close> after \<^verbatim>\<open>fetch\<close>.\<close>

definition textReply ::
  "bool \<Rightarrow> fetch_result \<Rightarrow> 'a vc_scheme \<Rightarrow> js_error option \<times> 'a vc_scheme" where
  "textReply blocked result s =
     (case result of
        Rejected \<Rightarrow> (Some NetworkError, s)
      | Response st body \<Rightarrow>
          (case body of
             Malformed \<Rightarrow> (Some SyntaxError, s)
           | JsonNull \<Rightarrow> (Some TypeError, s)
           | JsonObject d \<Rightarrow>
               if dataStatus d = Some ''success''
               then (let s1 = setMessages [\<lparr>role = Assistant, content = dataResponseText d\<rparr>] s
                     in case decodeHexRegex (dataAudio d) of
                          Inl e \<Rightarrow> (Some e, s1)
                        | Inr audioBytes \<Rightarrow> (None, playDecoded blocked audioBytes s1))
               else (Some RemoteError, s)))"

text \<open>
  \<^verbatim>\<open>handleSendText\<close>, the same text in main-page.tsx (lines 150 to 197) and part\_001 (lines
  104 to 146).
\<close>

definition handleSendText :: "(request \<Rightarrow> fetch_result) \<Rightarrow> bool \<Rightarrow> 'a vc_scheme \<Rightarrow> 'a vc_scheme" where
  "handleSendText net blocked s =
     (if trim (transcript s) = [] then s
      else (let userMessage = trim (transcript s);
                s1 = setMessages [\<lparr>role = User, content = Some userMessage\<rparr>] s;
                s2 = s1\<lparr>transcript := [], isLoading := True\<rparr>;
                rq = textRequest userMessage
            in case textReply blocked (net rq) (emit (Fetch rq) s2) of
                 (err, s3) \<Rightarrow>
                   (case err of
                      None \<Rightarrow> s3
                    | Some e \<Rightarrow>
                        setMessages
                          [assistantSays ''Sorry, I couldn't process that request. Please try again.'']
                          s3)
                     \<lparr>isLoading := False\<rparr>))"

subsection \<open>The recorder of part\_001\<close>

record vc1 = vc +
  isRecording :: bool
  mediaRecorderRef :: "nat option"
  audioChunksRef :: "blob list"

definition init1 :: vc1 where
  "init1 = \<lparr>messages = [], isLoading = False, transcript = [], effects = [], nextId = 0,
            isRecording = False, mediaRecorderRef = None, audioChunksRef = []\<rparr>"

text \<open>What a click on the record button asks of the host.\<close>

datatype host_call = CallStop nat | CallGetUserMedia | NoCall

text \<open>
  \<^verbatim>\<open>toggleRecording\<close>, up to the point where it suspends or returns. When the flag
  \<^verbatim>\<open>isRecording\<close> is set it asks the recorder of \<^verbatim>\<open>mediaRecorderRef\<close> to stop and clears the
  flag; the host will deliver the last chunk and call \<^verbatim>\<open>onstop\<close> later. When the flag is not
  set it calls \<^verbatim>\<open>getUserMedia\<close> and suspends, the state unchanged: the flag stays clear
  until the call resolves, and the button is disabled by \<^verbatim>\<open>isLoading\<close> only.
\<close>

definition toggleRecording1 :: "vc1 \<Rightarrow> host_call \<times> vc1" where
  "toggleRecording1 s =
     (if isRecording s
      then (case mediaRecorderRef s of None \<Rightarrow> NoCall | Some recorder \<Rightarrow> CallStop recorder,
            s\<lparr>isRecording := False\<rparr>)
      else (CallGetUserMedia, s))"

text \<open>
  The rest of \<^verbatim>\<open>toggleRecording\<close> once \<^verbatim>\<open>getUserMedia\<close> has resolved with a stream: a recorder
  is created on the stream and stored, the chunks are reset, the recorder is started and the
  flag is set. The recorder is identified with its stream. The constructor of the recorder
  and its \<^verbatim>\<open>start\<close> are calls of the host that may throw; the \<^verbatim>\<open>catch\<close> block then reports
  the failure, and the stream, acquired already, stays as it is.
\<close>

datatype recorder_fault = NoFault | ConstructorThrows | StartThrows

definition userMediaResolved1 :: "recorder_fault \<Rightarrow> vc1 \<Rightarrow> vc1" where
  "userMediaResolved1 fault s =
     (let stream = nextId s;
          s1 = emit (GetUserMedia stream) (s\<lparr>nextId := nextId s + 1\<rparr>);
          failed = setMessages
                     [assistantSays ''Failed to access microphone. Please check permissions.'']
      in case fault of
           ConstructorThrows \<Rightarrow> failed s1
         | StartThrows \<Rightarrow> failed (s1\<lparr>mediaRecorderRef := Some stream, audioChunksRef := []\<rparr>)
         | NoFault \<Rightarrow>
             s1\<lparr>mediaRecorderRef := Some stream, audioChunksRef := [], isRecording := True\<rparr>)"

text \<open>The \<^verbatim>\<open>catch\<close> block of \<^verbatim>\<open>toggleRecording\<close>, entered when \<^verbatim>\<open>getUserMedia\<close> rejects.\<close>

definition userMediaRejected1 :: "vc1 \<Rightarrow> vc1" where
  "userMediaRejected1 s =
     setMessages [assistantSays ''Failed to access microphone. Please check permissions.''] s"

definition ondataavailable1 :: "blob \<Rightarrow> vc1 \<Rightarrow> vc1" where
  "ondataavailable1 chunk s = s\<lparr>audioChunksRef := audioChunksRef s @ [chunk]\<rparr>"

text \<open>
  \<^verbatim>\<open>mediaRecorderRef.current.onstop\<close>, for the recorder of stream \<open>stream\<close>: the payload is
  built, the tracks of the stream are stopped, and the payload is sent.
\<close>

definition onstop1 :: "(request \<Rightarrow> fetch_result) \<Rightarrow> bool \<Rightarrow> nat \<Rightarrow> vc1 \<Rightarrow> vc1" where
  "onstop1 net blocked stream s =
     (let audioBlob = \<lparr>blobBytes = concat (map blobBytes (audioChunksRef s)),
                       blobType = ''audio/wav''\<rparr>;
          s1 = emit (TrackStop stream) s
      in handleSendAudio1 net blocked (Some audioBlob) s1)"

text \<open>
  \<^verbatim>\<open>onstop\<close> cut where \<^verbatim>\<open>handleSendAudio\<close> suspends, at its call of \<^verbatim>\<open>fetch\<close>: the statements
  up to the call, and the statements of \<^verbatim>\<open>handleSendAudio\<close> from its resolution on.
\<close>

definition onstopBegin1 :: "nat \<Rightarrow> vc1 \<Rightarrow> vc1" where
  "onstopBegin1 stream s =
     (let audioBlob = \<lparr>blobBytes = concat (map blobBytes (audioChunksRef s)),
                       blobType = ''audio/wav''\<rparr>;
          s1 = emit (TrackStop stream) s
      in emit (Fetch (chatRequest audioBlob ''recording.wav'')) (s1\<lparr>isLoading := True\<rparr>))"

definition sendAudioEnd1 :: "bool \<Rightarrow> fetch_result \<Rightarrow> 'a vc_scheme \<Rightarrow> 'a vc_scheme" where
  "sendAudioEnd1 blocked result s = audioFinish (audioReply blocked result s)"

definition init_main :: vc where
  "init_main = \<lparr>messages = [], isLoading = False, transcript = [], effects = [], nextId = 0\<rparr>"


section \<open>Notions the statements use\<close>

text \<open>An empty payload: the blob is \<^verbatim>\<open>null\<close> or has size zero.\<close>

definition emptyPayload :: "blob option \<Rightarrow> bool" where
  "emptyPayload audioBlob = (case audioBlob of None \<Rightarrow> True | Some b \<Rightarrow> blobSize b = 0)"

text \<open>
  The body of a response fails: the request is rejected, the body is not JSON, or it does
  not carry the status \<^verbatim>\<open>success\<close>.
\<close>

definition bodyFailed :: "fetch_result \<Rightarrow> bool" where
  "bodyFailed result =
     (case result of
        Rejected \<Rightarrow> True
      | Response st body \<Rightarrow>
          (case body of
             Malformed \<Rightarrow> True
           | JsonNull \<Rightarrow> True
           | JsonObject d \<Rightarrow> dataStatus d \<noteq> Some ''success''))"

text \<open>The remote interaction fails: the HTTP status is outside 200 to 299, or the body fails.\<close>

definition remoteFailed :: "fetch_result \<Rightarrow> bool" where
  "remoteFailed result =
     (case result of
        Rejected \<Rightarrow> True
      | Response st body \<Rightarrow> (if ok st then bodyFailed result else True))"

text \<open>The example of the spec: the reply to \<^verbatim>\<open>send(P)\<close>, and a recorded payload.\<close>

definition helloData :: response_data where
  "helloData = \<lparr>dataStatus = Some ''success'', dataTranscript = Some ''hello'',
                dataResponseText = Some ''hi there'', dataAudio = Some ''48656c6c6f'',
                dataMessage = None\<rparr>"

definition recording :: blob where
  "recording = \<lparr>blobBytes = [82, 73, 70, 70], blobType = ''audio/wav''\<rparr>"

definition replyWith :: "nat \<Rightarrow> json_body \<Rightarrow> request \<Rightarrow> fetch_result" where
  "replyWith st body rq = Response st body"

text \<open>
  The states part\_000 can reach. Each rule is one uninterrupted piece of a handler, or one
  event of the host: the two calls of \<^verbatim>\<open>setStatus\<close> in \<^verbatim>\<open>toggleRecording\<close>, the acquisition of
  the microphone, a chunk, the \<^verbatim>\<open>catch\<close> block of \<^verbatim>\<open>toggleRecording\<close>, the path of the empty
  payload, the two pieces of a send, the end of an element (of whichever element, delivered
  whenever the host delivers it), a press of the replay button. A piece may follow any
  other, so every order in which the host can run the pieces of one or several handlers is
  a path, and the states in the middle of a send (status processing, the loading flag set)
  are among them.
\<close>

inductive reachable0 :: "vc0 \<Rightarrow> bool" where
  r0_init: "reachable0 init0"
| r0_status: "reachable0 s \<Longrightarrow> reachable0 (s\<lparr>status := st\<rparr>)"
| r0_acquired: "reachable0 s \<Longrightarrow> reachable0 (snd (recorderStart0 True s))"
| r0_data: "reachable0 s \<Longrightarrow> reachable0 (ondataavailable0 chunk s)"
| r0_error: "reachable0 s \<Longrightarrow> reachable0 (recordingError0 s)"
| r0_empty: "reachable0 s \<Longrightarrow> reachable0 (noAudioRecorded0 s)"
| r0_send_begin: "reachable0 s \<Longrightarrow> reachable0 (sendAudioBegin0 audioBlob s)"
| r0_send_end: "reachable0 s \<Longrightarrow> reachable0 (sendAudioEnd0 blocked result s)"
| r0_ended: "reachable0 s \<Longrightarrow> reachable0 (onended0 a s)"
| r0_replay: "reachable0 s \<Longrightarrow> reachable0 (replay0 s)"

text \<open>
  The playback invariant of part\_000: no two elements have ever played together, and
  nothing plays but the element that \<^verbatim>\<open>audioRef\<close> names.
\<close>

definition handleOwns :: "effect list \<Rightarrow> audio option \<Rightarrow> bool" where
  "handleOwns es r =
     (neverTwoPlaying es \<and>
      (playingNow es = [] \<or>
       (case r of None \<Rightarrow> False | Some a \<Rightarrow> playingNow es = [audioId a])))"

text \<open>Effects that start or stop no playback, and effects that leave the capture device alone.\<close>

fun silent :: "effect \<Rightarrow> bool" where
  "silent (AudioPlay a) = False"
| "silent (AudioPause a) = False"
| "silent (AudioEnded a) = False"
| "silent _ = True"

fun offCapture :: "effect \<Rightarrow> bool" where
  "offCapture (GetUserMedia st) = False"
| "offCapture (TrackStop st) = False"
| "offCapture _ = True"

section \<open>Properties of the decoders\<close>

lemma hexDigit_plain:
  "isHexDigit c \<Longrightarrow>
   \<not> isStrWhiteSpace c \<and> c \<noteq> CHR ''-'' \<and> c \<noteq> CHR ''+'' \<and> c \<noteq> CHR ''x'' \<and> c \<noteq> CHR ''X'' \<and>
   \<not> isLineTerminator c"
  by (auto simp: isHexDigit_def isStrWhiteSpace_def isLineTerminator_def Let_def)

text \<open>On a pair of hexadecimal characters \<^verbatim>\<open>parseInt\<close> reads the high nibble first.\<close>

lemma parseInt16_pair:
  assumes "isHexDigit c" "isHexDigit d"
  shows "parseInt16 [c, d] = Some (16 * hexVal c + hexVal d)"
  using assms hexDigit_plain[of c] hexDigit_plain[of d]
  by (simp add: parseInt16_def digitsValue_def Let_def)

lemma toUint8_pair:
  "isHexDigit c \<Longrightarrow> isHexDigit d \<Longrightarrow> toUint8 (parseInt16 [c, d]) = pairByte c d"
  by (simp add: parseInt16_pair toUint8_def pairByte_def)

lemma drop_two:
  assumes "i + 2 \<le> length s"
  shows "drop i s = s ! i # s ! (i + 1) # drop (i + 2) s"
proof -
  from assms have a: "i < length s" and b: "Suc i < length s" by simp_all
  have "drop i s = s ! i # drop (Suc i) s"
    using a by (simp add: Cons_nth_drop_Suc)
  also have "drop (Suc i) s = s ! Suc i # drop (Suc (Suc i)) s"
    using b by (simp add: Cons_nth_drop_Suc)
  finally show ?thesis by simp
qed

lemma substr_pair: "i + 2 \<le> length s \<Longrightarrow> substr s i 2 = [s ! i, s ! (i + 1)]"
  by (simp add: substr_def drop_two)

lemma even_step: "even (i::nat) \<Longrightarrow> even n \<Longrightarrow> i < n \<Longrightarrow> i + 2 \<le> n"
  by presburger

lemma half_less: "even (i::nat) \<Longrightarrow> even n \<Longrightarrow> i < n \<Longrightarrow> i div 2 < n div 2"
  by presburger

text \<open>
  The loop invariant: when the index is \<open>i\<close>, the first \<open>i div 2\<close> bytes of the buffer are
  final and the rest of the result is the value of the pairs from \<open>i\<close> on.
\<close>

lemma decodeLoop_pairs:
  assumes ev: "even (length s)" and hx: "list_all isHexDigit s"
  shows "even i \<Longrightarrow> i \<le> length s \<Longrightarrow> length buffer = length s div 2 \<Longrightarrow>
         decodeLoop s i buffer = take (i div 2) buffer @ pairBytes (drop i s)"
  using assms
proof (induction s i buffer rule: decodeLoop.induct)
  case (1 audioHex i buffer)
  show ?case
  proof (cases "i < length audioHex")
    case False
    with "1.prems" have "i = length audioHex" by simp
    then show ?thesis
      using "1.prems" by (subst decodeLoop.simps) simp
  next
    case True
    have i2: "i + 2 \<le> length audioHex"
      using True "1.prems" even_step[of i "length audioHex"] by blast
    have k: "i div 2 < length buffer"
      using True "1.prems" half_less[of i "length audioHex"] by simp
    have dg: "isHexDigit (audioHex ! i)" "isHexDigit (audioHex ! (i + 1))"
      using i2 "1.prems" by (simp_all add: list_all_length)
    let ?v = "pairByte (audioHex ! i) (audioHex ! (i + 1))"
    have w: "typedSet buffer (i div 2) (toUint8 (parseInt16 (substr audioHex i 2)))
             = buffer[i div 2 := ?v]"
      using i2 k dg by (simp add: substr_pair toUint8_pair typedSet_def)
    have step: "decodeLoop audioHex i buffer
                = decodeLoop audioHex (i + 2) (buffer[i div 2 := ?v])"
      using True w by (subst decodeLoop.simps) simp
    have "decodeLoop audioHex (i + 2) (buffer[i div 2 := ?v])
          = take ((i + 2) div 2) (buffer[i div 2 := ?v]) @ pairBytes (drop (i + 2) audioHex)"
      using "1.IH"[OF True] w i2 "1.prems" by simp
    also have "take ((i + 2) div 2) (buffer[i div 2 := ?v]) = take (i div 2) buffer @ [?v]"
      using k by (simp add: take_Suc_conv_app_nth)
    finally show ?thesis
      using step i2 by (simp add: drop_two)
  qed
qed

text \<open>
  Both decoders map each consecutive pair of hexadecimal characters to one byte, high nibble
  first; the pattern-based one needs a string that is not empty.
\<close>

lemma decodeHexLoop_pairs:
  "even (length s) \<Longrightarrow> list_all isHexDigit s \<Longrightarrow> decodeHexLoop s = pairBytes s"
  using decodeLoop_pairs[of s 0 "replicate (length s div 2) 0"]
  by (simp add: decodeHexLoop_def)

lemma matchPairs_hex:
  "even (length s) \<Longrightarrow> list_all isHexDigit s \<Longrightarrow>
   map (\<lambda>byte. toUint8 (parseInt16 byte)) (matchPairs s) = pairBytes s"
proof (induction s rule: pairBytes.induct)
  case (1 hi lo rest)
  then show ?case
    using hexDigit_plain[of hi] hexDigit_plain[of lo] by (simp add: toUint8_pair)
qed simp_all

lemma matchPairs_nonempty:
  "s \<noteq> [] \<Longrightarrow> even (length s) \<Longrightarrow> list_all isHexDigit s \<Longrightarrow> matchPairs s \<noteq> []"
  using hexDigit_plain by (cases s rule: pairBytes.cases) auto

lemma decodeHexRegex_pairs:
  "s \<noteq> [] \<Longrightarrow> even (length s) \<Longrightarrow> list_all isHexDigit s \<Longrightarrow>
   decodeHexRegex (Some s) = Inr (pairBytes s)"
  using matchPairs_nonempty[of s] matchPairs_hex[of s]
  by (cases "matchPairs s") (simp_all add: decodeHexRegex_def)

text \<open>The two decoders agree on every even-length hexadecimal string that is not empty.\<close>

lemma decoders_agree_nonempty:
  "s \<noteq> [] \<Longrightarrow> even (length s) \<Longrightarrow> list_all isHexDigit s \<Longrightarrow>
   decodeHexRegex (Some s) = Inr (decodeHexLoop s)"
  by (simp add: decodeHexRegex_pairs decodeHexLoop_pairs)

lemma hexChar_table:
  "list_all (\<lambda>n. isHexDigit (hexChar n) \<and> hexVal (hexChar n) = int n) [0..<16]"
  by code_simp

lemma hexChar_digit: "n < 16 \<Longrightarrow> isHexDigit (hexChar n) \<and> hexVal (hexChar n) = int n"
proof -
  assume "n < 16"
  then have "n \<in> set [0..<16]" by simp
  with hexChar_table show ?thesis
    unfolding list_all_iff by blast
qed

lemma nibbles: "unat (b :: byte) div 16 < 16 \<and> unat b mod 16 < 16"
proof -
  have "unat b < 256" using unsigned_less[of b, where ?'a = nat] by simp
  then show ?thesis by simp
qed

lemma pairByte_hexChar: "pairByte (hexChar (unat b div 16)) (hexChar (unat b mod 16)) = b"
proof -
  have "16 * int (unat b div 16) + int (unat b mod 16) = int (unat b)"
    by (simp add: zdiv_int zmod_int)
  then show ?thesis
    using nibbles[of b] by (simp add: pairByte_def hexChar_digit)
qed

lemma hexEncode_length: "length (hexEncode bs) = 2 * length bs"
  by (induction bs) (simp_all add: hexEncode_def)

lemma hexEncode_digits: "list_all isHexDigit (hexEncode bs)"
proof (induction bs)
  case (Cons b bs)
  then show ?case
    using nibbles[of b] by (simp add: hexEncode_def hexChar_digit)
qed (simp add: hexEncode_def)

lemma pairBytes_hexEncode: "pairBytes (hexEncode bs) = bs"
  by (induction bs) (simp_all add: hexEncode_def pairByte_hexChar)

text \<open>
  The round trip through the index loop of part\_000 holds for every byte sequence, the empty
  one included; through the pattern-based decoder it holds for every sequence but the empty
  one.
\<close>

lemma decodeHexLoop_roundtrip: "decodeHexLoop (hexEncode bs) = bs"
  by (simp add: decodeHexLoop_pairs hexEncode_length hexEncode_digits pairBytes_hexEncode)

lemma decodeHexRegex_roundtrip: "bs \<noteq> [] \<Longrightarrow> decodeHexRegex (Some (hexEncode bs)) = Inr bs"
proof -
  assume "bs \<noteq> []"
  then have "hexEncode bs \<noteq> []"
    using hexEncode_length[of bs] by (cases bs) auto
  then show ?thesis
    by (simp add: decodeHexRegex_pairs hexEncode_length hexEncode_digits pairBytes_hexEncode)
qed

text \<open>
  Claim C5: the decoding of the response audio maps each pair of hexadecimal characters to
  one byte, high nibble first, and encoding a byte sequence and decoding it back yields the
  sequence again for every even length, 0 included. The index loop does
  (\<open>decodeHexLoop_roundtrip\<close>); the decoder of main-page.tsx does not at length 0: the encoding
  of the empty sequence is the empty string, on which \<^verbatim>\<open>match\<close> finds nothing and returns
  \<^verbatim>\<open>null\<close>, and \<^verbatim>\<open>null.map\<close> throws instead of yielding the empty sequence.
\<close>

theorem C5_regex_roundtrip_fails_at_length_0:
  "length (hexEncode []) = 0 \<and> decodeHexRegex (Some (hexEncode [])) = Inl TypeError
   \<and> decodeHexRegex (Some (hexEncode [])) \<noteq> Inr []"
  by (simp add: hexEncode_def decodeHexRegex_def)

text \<open>
  Claim C9: the index loop and the pattern-based decoder produce the same bytes for every
  even-length string of hexadecimal characters. They do when the string is not empty
  (\<open>decoders_agree_nonempty\<close>); on the empty string the loop yields the empty byte
  sequence and the pattern-based decoder throws.
\<close>

theorem C9_decoders_differ_on_empty_string:
  "even (length ([] :: string)) \<and> list_all isHexDigit []
   \<and> decodeHexLoop [] = [] \<and> decodeHexRegex (Some []) = Inl TypeError"
  by (simp add: decodeHexLoop_def decodeHexRegex_def)

section \<open>Properties of the handlers\<close>

lemma messages_setMessages: "messages (setMessages new s) = messages s @ new"
  by (simp add: setMessages_def)

lemma effects_setMessages: "effects (setMessages new s) = effects s @ [SetMessages new]"
  by (simp add: setMessages_def)

lemma messages_emit: "messages (emit e s) = messages s"
  by (simp add: emit_def)

lemma effects_emit: "effects (emit e s) = effects s @ [e]"
  by (simp add: emit_def)

lemma messages_playAudioResponse: "messages (playAudioResponse blocked hex s) = messages s"
  by (simp add: playAudioResponse_def Let_def emit_def split: option.split)

lemma messages_playDecoded: "messages (playDecoded blocked bytes s) = messages s"
  by (simp add: playDecoded_def Let_def emit_def)

lemma effects_playDecoded:
  "effects (playDecoded blocked bytes s)
     = effects s @ [CreateObjectURL (nextId s) \<lparr>blobBytes = bytes, blobType = ''audio/wav''\<rparr>,
                    if blocked then AudioBlocked (nextId s + 1) else AudioPlay (nextId s + 1)]"
  by (simp add: playDecoded_def Let_def emit_def)

subsection \<open>The return to idle\<close>

text \<open>
  Claim C1: whatever the payload and whatever the outcome of the remote call (a rejected
  request, a status outside 200 to 299, a body that is not JSON, a failure reported by the
  remote, a success), \<^verbatim>\<open>handleSendAudio\<close> of part\_000 ends with the session state idle and
  the loading flag false, on the path of the empty payload as well; and a whole turn of
  part\_000, from the click that stops a recording, ends idle whether the recorder, the
  transcoding or the send fails or not. The variant of main-page.tsx keeps no session state
  of its own (its \<^verbatim>\<open>status\<close> belongs to the recorder hook); its \<^verbatim>\<open>finally\<close> block clears the
  loading flag after every outcome of a send, a failed conversion included.
\<close>

theorem C1_send_ends_idle:
  "status (handleSendAudio0 net blocked audioBlob s) = Idle
   \<and> \<not> isLoading (handleSendAudio0 net blocked audioBlob s)
   \<and> status (toggleRecording0 granted lastChunk transcode net blocked (s\<lparr>status := Recording\<rparr>))
       = Idle
   \<and> \<not> isLoading (handleSendAudio_main convert net blocked (Some b) t)"
  by (simp add: handleSendAudio0_def noAudioRecorded0_def handleSendAudio_main_def
      audioFinish_def toggleRecording0_def recordingError0_def Let_def
      split: option.split prod.split sum.split)

subsection \<open>The empty payload\<close>

text \<open>What the statements after \<^verbatim>\<open>fetch\<close> do in main-page.tsx and part\_001: no request, and
  nothing to the capture device.\<close>

lemma audioReply_effects:
  "\<exists>rest. effects (snd (audioReply blocked result s)) = effects s @ rest
      \<and> fetches rest = [] \<and> list_all offCapture rest"
  by (cases "audioReply blocked result s")
    (auto simp: audioReply_def Let_def effects_setMessages effects_playDecoded fetches_def
      split: fetch_result.splits json_body.splits if_splits sum.splits)

lemma sendAudioEnd1_effects:
  "\<exists>rest. effects (sendAudioEnd1 blocked result s) = effects s @ rest
      \<and> fetches rest = [] \<and> list_all offCapture rest"
proof -
  obtain err s2 where r: "audioReply blocked result s = (err, s2)"
    by (cases "audioReply blocked result s")
  obtain rest where rest: "effects s2 = effects s @ rest" "fetches rest = []"
      "list_all offCapture rest"
    using audioReply_effects[of blocked result s] r by auto
  show ?thesis
    using r rest
    by (cases err) (simp_all add: sendAudioEnd1_def audioFinish_def effects_setMessages fetches_def)
qed

lemma handleSendAudio1_phases:
  "handleSendAudio1 net blocked (Some b) s
     = sendAudioEnd1 blocked (net (chatRequest b ''recording.wav''))
         (emit (Fetch (chatRequest b ''recording.wav'')) (s\<lparr>isLoading := True\<rparr>))"
  by (simp add: handleSendAudio1_def sendAudioEnd1_def Let_def)

text \<open>part\_001 sends every blob it is given, whatever its size: the request is its first effect.\<close>

lemma handleSendAudio1_effects:
  "\<exists>rest. effects (handleSendAudio1 net blocked (Some b) s)
            = effects s @ Fetch (chatRequest b ''recording.wav'') # rest
          \<and> fetches rest = [] \<and> list_all offCapture rest"
proof -
  let ?rq = "chatRequest b ''recording.wav''"
  let ?s1 = "emit (Fetch ?rq) (s\<lparr>isLoading := True\<rparr>)"
  obtain rest where "effects (sendAudioEnd1 blocked (net ?rq) ?s1) = effects ?s1 @ rest"
      "fetches rest = []" "list_all offCapture rest"
    using sendAudioEnd1_effects[of blocked "net ?rq" ?s1] by auto
  then show ?thesis
    by (simp add: handleSendAudio1_phases effects_emit)
qed

text \<open>
  Claim C2, as stated, fails on part\_001, whose \<^verbatim>\<open>handleSendAudio\<close> tests the blob for
  \<^verbatim>\<open>null\<close> only and converts nothing: a blob of size zero is sent, and with the reply of the
  spec's example the log gains the user's and the assistant's message. The recorder of
  part\_001 produces such a blob when it is stopped with nothing but an empty chunk.
\<close>

theorem C2_part_001_sends_empty_blob:
  "blobSize \<lparr>blobBytes = [], blobType = ''audio/wav''\<rparr> = 0
   \<and> fetches (effects (handleSendAudio1 (replyWith 200 (JsonObject helloData)) False
        (Some \<lparr>blobBytes = [], blobType = ''audio/wav''\<rparr>) init1))
       = [chatRequest \<lparr>blobBytes = [], blobType = ''audio/wav''\<rparr> ''recording.wav'']
   \<and> messages (handleSendAudio1 (replyWith 200 (JsonObject helloData)) False
        (Some \<lparr>blobBytes = [], blobType = ''audio/wav''\<rparr>) init1)
       = [\<lparr>role = User, content = Some ''hello''\<rparr>,
          \<lparr>role = Assistant, content = Some ''hi there''\<rparr>]
   \<and> effects (onstopBegin1 0
        (ondataavailable1 \<lparr>blobBytes = [], blobType = ''audio/webm''\<rparr>
           (snd (toggleRecording1 (userMediaResolved1 NoFault init1)))))
       = [GetUserMedia 0, TrackStop 0,
          Fetch (chatRequest \<lparr>blobBytes = [], blobType = ''audio/wav''\<rparr> ''recording.wav'')]"
  by (simp add: blobSize_def handleSendAudio1_def audioFinish_def audioReply_def replyWith_def
      helloData_def init1_def Let_def setMessages_def emit_def playDecoded_def decodeHexRegex_def
      isLineTerminator_def fetches_def chatRequest_def onstopBegin1_def ondataavailable1_def
      toggleRecording1_def userMediaResolved1_def)

text \<open>
  Claim C2, amended: in part\_000 every call of \<^verbatim>\<open>handleSendAudio\<close> with an empty payload
  (a blob that is \<^verbatim>\<open>null\<close> or of size zero) does one thing to its host, the call of
  \<^verbatim>\<open>setMessages\<close> that appends exactly one assistant message, so it issues no request. In
  main-page.tsx, whose handler has no test of the size, the same holds of every blob on which
  \<^verbatim>\<open>convertToWav\<close> throws: no request, and exactly one assistant message. In part\_001, whose
  handler has neither a test of the size nor a conversion, every blob is sent, its size zero
  or not.
\<close>

theorem C2_empty_payload:
  "(emptyPayload audioBlob \<longrightarrow>
      effects (handleSendAudio0 net blocked audioBlob s)
        = effects s @ [SetMessages [\<lparr>role = Assistant,
                                      content = Some ''No audio recorded. Please try again.''\<rparr>]]
      \<and> messages (handleSendAudio0 net blocked audioBlob s)
        = messages s @ [\<lparr>role = Assistant,
                         content = Some ''No audio recorded. Please try again.''\<rparr>])
   \<and> (convert b = Inl e \<longrightarrow>
      effects (handleSendAudio_main convert net blocked (Some b) t)
        = effects t @ [SetMessages [\<lparr>role = Assistant,
             content = Some ''Sorry, I couldn't process that. Please try again.''\<rparr>]]
      \<and> messages (handleSendAudio_main convert net blocked (Some b) t)
        = messages t @ [\<lparr>role = Assistant,
             content = Some ''Sorry, I couldn't process that. Please try again.''\<rparr>])
   \<and> (\<exists>rest. effects (handleSendAudio1 net blocked (Some b) u)
                = effects u @ Fetch (chatRequest b ''recording.wav'') # rest
              \<and> fetches rest = [])"
proof (intro conjI impI)
  assume "emptyPayload audioBlob"
  then show "effects (handleSendAudio0 net blocked audioBlob s)
        = effects s @ [SetMessages [\<lparr>role = Assistant,
                                      content = Some ''No audio recorded. Please try again.''\<rparr>]]"
    and "messages (handleSendAudio0 net blocked audioBlob s)
        = messages s @ [\<lparr>role = Assistant,
                         content = Some ''No audio recorded. Please try again.''\<rparr>]"
    by (simp_all add: emptyPayload_def handleSendAudio0_def noAudioRecorded0_def setMessages_def
        assistantSays_def split: option.splits)
next
  assume "convert b = Inl e"
  then show "effects (handleSendAudio_main convert net blocked (Some b) t)
        = effects t @ [SetMessages [\<lparr>role = Assistant,
             content = Some ''Sorry, I couldn't process that. Please try again.''\<rparr>]]"
    and "messages (handleSendAudio_main convert net blocked (Some b) t)
        = messages t @ [\<lparr>role = Assistant,
             content = Some ''Sorry, I couldn't process that. Please try again.''\<rparr>]"
    by (simp_all add: handleSendAudio_main_def audioFinish_def setMessages_def assistantSays_def)
next
  show "\<exists>rest. effects (handleSendAudio1 net blocked (Some b) u)
                = effects u @ Fetch (chatRequest b ''recording.wav'') # rest
              \<and> fetches rest = []"
    using handleSendAudio1_effects[of net blocked b u] by blast
qed

theorem C2_empty_payload_witness:
  "emptyPayload (Some \<lparr>blobBytes = [], blobType = ''audio/wav''\<rparr>)
   \<and> effects (handleSendAudio0 (replyWith 200 (JsonObject helloData)) False
        (Some \<lparr>blobBytes = [], blobType = ''audio/wav''\<rparr>) init0)
       = [SetMessages [\<lparr>role = Assistant,
                        content = Some ''No audio recorded. Please try again.''\<rparr>]]
   \<and> effects (handleSendAudio_main (\<lambda>blob. Inl ConvertError)
        (replyWith 200 (JsonObject helloData)) False
        (Some \<lparr>blobBytes = [], blobType = ''audio/webm''\<rparr>) init_main)
       = [SetMessages [\<lparr>role = Assistant,
             content = Some ''Sorry, I couldn't process that. Please try again.''\<rparr>]]"
  using C2_empty_payload[where audioBlob = "Some \<lparr>blobBytes = [], blobType = ''audio/wav''\<rparr>"
      and net = "replyWith 200 (JsonObject helloData)" and blocked = False and s = init0
      and convert = "\<lambda>blob. Inl ConvertError" and e = ConvertError
      and b = "\<lparr>blobBytes = [], blobType = ''audio/webm''\<rparr>" and t = init_main and u = init1]
  by (simp add: emptyPayload_def blobSize_def init0_def init_main_def)

subsection \<open>Success\<close>

text \<open>
  In part\_000 a response with a status in 200 to 299 and the body status \<^verbatim>\<open>success\<close> appends
  exactly two messages, the transcript as the user and the reply as the assistant, whether
  the response carries audio or not.
\<close>

lemma send0_success_two_messages:
  assumes "blobSize b \<noteq> 0" "net (chatRequest b ''recording.wav'') = Response st (JsonObject d)"
    "ok st" "dataStatus d = Some ''success''"
  shows "messages (handleSendAudio0 net blocked (Some b) s)
           = messages s @ [\<lparr>role = User, content = dataTranscript d\<rparr>,
                           \<lparr>role = Assistant, content = dataResponseText d\<rparr>]"
  using assms
  by (simp add: handleSendAudio0_def sendAudioTry0_def Let_def
      messages_setMessages messages_emit messages_playAudioResponse
      split: option.splits)

text \<open>In main-page.tsx it does so when the audio field is a string in which the pattern matches.\<close>

lemma send_main_success_two_messages:
  assumes "convert b = Inr w" "net (chatRequest w ''recording.wav'') = Response st (JsonObject d)"
    "dataStatus d = Some ''success''" "dataAudio d = Some a" "matchPairs a \<noteq> []"
  shows "messages (handleSendAudio_main convert net blocked (Some b) s)
           = messages s @ [\<lparr>role = User, content = dataTranscript d\<rparr>,
                           \<lparr>role = Assistant, content = dataResponseText d\<rparr>]"
  using assms
  by (cases "matchPairs a")
    (simp_all add: handleSendAudio_main_def audioFinish_def audioReply_def Let_def
      messages_setMessages messages_emit messages_playDecoded decodeHexRegex_def)

text \<open>
  Claim C3: a response with a status in 200 to 299 and the body status \<^verbatim>\<open>success\<close> appends
  exactly two messages, the user's then the assistant's. main-page.tsx breaks it on the
  response of the spec's example with the audio left out: the two messages are appended,
  the decoding throws on the absent field, and the \<^verbatim>\<open>catch\<close> block appends a third message
  that reports a failure.
\<close>

theorem C3_main_page_third_message:
  "ok 200
   \<and> messages (handleSendAudio_main Inr
        (replyWith 200 (JsonObject (helloData\<lparr>dataAudio := None\<rparr>))) False (Some recording)
        init_main)
     = [\<lparr>role = User, content = Some ''hello''\<rparr>,
        \<lparr>role = Assistant, content = Some ''hi there''\<rparr>,
        \<lparr>role = Assistant, content = Some ''Sorry, I couldn't process that. Please try again.''\<rparr>]"
  by (simp add: ok_def handleSendAudio_main_def audioFinish_def audioReply_def replyWith_def
      helloData_def init_main_def Let_def setMessages_def emit_def decodeHexRegex_def
      assistantSays_def)

text \<open>
  Claim C10: in main-page.tsx a response with the body status \<^verbatim>\<open>success\<close> and no audio field
  appends the user and the assistant message and then, the decoding having thrown, one more
  assistant message; part\_000 tests the field before it plays and appends the two only.
\<close>

theorem C10_missing_audio:
  assumes "dataStatus d = Some ''success''" and "dataAudio d = None"
    and "convert b = Inr w"
    and "net (chatRequest w ''recording.wav'') = Response st (JsonObject d)"
  shows "messages (handleSendAudio_main convert net blocked (Some b) s)
           = messages s @ [\<lparr>role = User, content = dataTranscript d\<rparr>,
                           \<lparr>role = Assistant, content = dataResponseText d\<rparr>,
                           \<lparr>role = Assistant,
                            content = Some ''Sorry, I couldn't process that. Please try again.''\<rparr>]
       \<and> (ok st \<and> blobSize w \<noteq> 0 \<longrightarrow>
            messages (handleSendAudio0 net blocked (Some w) t)
              = messages t @ [\<lparr>role = User, content = dataTranscript d\<rparr>,
                              \<lparr>role = Assistant, content = dataResponseText d\<rparr>])"
  using assms
  by (simp add: handleSendAudio_main_def audioFinish_def audioReply_def Let_def
      messages_setMessages messages_emit decodeHexRegex_def assistantSays_def
      handleSendAudio0_def sendAudioTry0_def)

theorem C10_missing_audio_witness:
  "dataStatus (helloData\<lparr>dataAudio := None\<rparr>) = Some ''success''
   \<and> dataAudio (helloData\<lparr>dataAudio := None\<rparr>) = None
   \<and> ok 200 \<and> blobSize recording \<noteq> 0
   \<and> messages (handleSendAudio_main Inr
        (replyWith 200 (JsonObject (helloData\<lparr>dataAudio := None\<rparr>))) True (Some recording)
        init_main)
       = [\<lparr>role = User, content = Some ''hello''\<rparr>,
          \<lparr>role = Assistant, content = Some ''hi there''\<rparr>,
          \<lparr>role = Assistant,
           content = Some ''Sorry, I couldn't process that. Please try again.''\<rparr>]
   \<and> messages (handleSendAudio0
        (replyWith 200 (JsonObject (helloData\<lparr>dataAudio := None\<rparr>))) True (Some recording) init0)
       = [\<lparr>role = User, content = Some ''hello''\<rparr>,
          \<lparr>role = Assistant, content = Some ''hi there''\<rparr>]"
  using C10_missing_audio[where d = "helloData\<lparr>dataAudio := None\<rparr>" and convert = Inr
      and b = recording and w = recording and st = 200
      and net = "replyWith 200 (JsonObject (helloData\<lparr>dataAudio := None\<rparr>))"
      and blocked = True and s = init_main and t = init0]
  by (simp add: helloData_def replyWith_def ok_def blobSize_def recording_def init_main_def
      init0_def)

subsection \<open>Failure\<close>

text \<open>
  Claim C4, as stated, fails on part\_001, which never reads the HTTP status: a response
  with status 500 whose body reports \<^verbatim>\<open>success\<close> is handled as a success.
\<close>

theorem C4_part_001_ignores_http_status:
  "\<not> ok 500
   \<and> messages (handleSendAudio1 (replyWith 500 (JsonObject helloData)) False (Some recording) init1)
       = [\<lparr>role = User, content = Some ''hello''\<rparr>,
          \<lparr>role = Assistant, content = Some ''hi there''\<rparr>]"
  by (simp add: ok_def handleSendAudio1_def audioFinish_def audioReply_def replyWith_def
      helloData_def init1_def Let_def messages_setMessages messages_emit messages_playDecoded
      decodeHexRegex_def isLineTerminator_def)

text \<open>
  Claim C4, amended: in part\_000 every send whose remote interaction fails (a rejected
  request, a status outside 200 to 299, a body that is not JSON, or a body whose status is
  not \<^verbatim>\<open>success\<close>) appends exactly one assistant message, the same for every kind of failure,
  after the messages already logged, which are unchanged; in part\_001 this holds for every
  send whose body fails (a rejected request, a body that is not JSON, or a body whose status
  is not \<^verbatim>\<open>success\<close>), whatever the HTTP status.
\<close>

theorem C4_failure_one_message:
  assumes "blobSize b \<noteq> 0"
  shows "(remoteFailed (net (chatRequest b ''recording.wav'')) \<longrightarrow>
            messages (handleSendAudio0 net blocked (Some b) s)
              = messages s @ [\<lparr>role = Assistant,
                  content = Some ''Error: Could not process audio. Please try again.''\<rparr>])
       \<and> (bodyFailed (net (chatRequest b ''recording.wav'')) \<longrightarrow>
            messages (handleSendAudio1 net blocked (Some b) t)
              = messages t @ [\<lparr>role = Assistant,
                  content = Some ''Sorry, I couldn't process that. Please try again.''\<rparr>])"
proof (intro conjI impI)
  assume "remoteFailed (net (chatRequest b ''recording.wav''))"
  then show "messages (handleSendAudio0 net blocked (Some b) s)
              = messages s @ [\<lparr>role = Assistant,
                  content = Some ''Error: Could not process audio. Please try again.''\<rparr>]"
    using assms
    by (simp add: handleSendAudio0_def sendAudioTry0_def remoteFailed_def bodyFailed_def Let_def
        messages_setMessages messages_emit assistantSays_def
        split: fetch_result.splits json_body.splits if_splits)
next
  assume "bodyFailed (net (chatRequest b ''recording.wav''))"
  then show "messages (handleSendAudio1 net blocked (Some b) t)
              = messages t @ [\<lparr>role = Assistant,
                  content = Some ''Sorry, I couldn't process that. Please try again.''\<rparr>]"
    by (simp add: handleSendAudio1_def audioReply_def audioFinish_def bodyFailed_def Let_def
        messages_setMessages messages_emit assistantSays_def
        split: fetch_result.splits json_body.splits if_splits)
qed

theorem C4_failure_one_message_witness:
  "blobSize recording \<noteq> 0
   \<and> remoteFailed (replyWith 500 (JsonObject helloData) (chatRequest recording ''recording.wav''))
   \<and> messages (handleSendAudio0 (replyWith 500 (JsonObject helloData)) False (Some recording) init0)
       = [\<lparr>role = Assistant,
           content = Some ''Error: Could not process audio. Please try again.''\<rparr>]
   \<and> bodyFailed (replyWith 200 Malformed (chatRequest recording ''recording.wav''))
   \<and> messages (handleSendAudio1 (replyWith 200 Malformed) False (Some recording) init1)
       = [\<lparr>role = Assistant,
           content = Some ''Sorry, I couldn't process that. Please try again.''\<rparr>]"
  using C4_failure_one_message[where b = recording and net = "replyWith 500 (JsonObject helloData)"
      and blocked = False and s = init0 and t = init1]
    C4_failure_one_message[where b = recording and net = "replyWith 200 Malformed"
      and blocked = False and s = init0 and t = init1]
  by (simp add: blobSize_def recording_def remoteFailed_def bodyFailed_def replyWith_def ok_def
      init0_def init1_def)

subsection \<open>\<^verbatim>\<open>handleSendText\<close>\<close>

lemma textReply_effects:
  "\<exists>rest. effects (snd (textReply blocked result s)) = effects s @ rest
      \<and> fetches rest = [] \<and> list_all offCapture rest"
  by (cases "textReply blocked result s")
    (auto simp: textReply_def Let_def effects_setMessages effects_playDecoded fetches_def
      split: fetch_result.splits json_body.splits if_splits sum.splits)

lemma textReply_messages:
  "\<exists>tail. messages (snd (textReply blocked result s)) = messages s @ tail
      \<and> list_all (\<lambda>m. role m = Assistant) tail"
  by (cases "textReply blocked result s")
    (auto simp: textReply_def Let_def messages_setMessages messages_playDecoded
      split: fetch_result.splits json_body.splits if_splits sum.splits)

text \<open>
  Claim C7: when the text is empty after trimming, \<^verbatim>\<open>handleSendText\<close> changes nothing (no
  message, no request). Otherwise the first thing it does is to append one user message
  holding the trimmed text, the next is the request, and it issues no other request and
  appends no other user message; the request carries, in the form field \<^verbatim>\<open>audio\<close>, a blob of
  type \<^verbatim>\<open>text/plain\<close> whose bytes are the text.
\<close>

theorem C7_send_text:
  "(trim (transcript s) = [] \<longrightarrow> handleSendText net blocked s = s)
   \<and> (trim (transcript s) \<noteq> [] \<longrightarrow>
        (\<exists>rest. effects (handleSendText net blocked s)
                  = effects s @ [SetMessages [\<lparr>role = User, content = Some (trim (transcript s))\<rparr>],
                                 Fetch (textRequest (trim (transcript s)))] @ rest
                \<and> fetches rest = [])
        \<and> (\<exists>tail. messages (handleSendText net blocked s)
                  = messages s @ \<lparr>role = User, content = Some (trim (transcript s))\<rparr> # tail
                \<and> list_all (\<lambda>m. role m = Assistant) tail))
   \<and> formField (textRequest userMessage) = ''audio''
   \<and> formBlob (textRequest userMessage)
       = \<lparr>blobBytes = utf8 userMessage, blobType = ''text/plain''\<rparr>"
proof (intro conjI impI)
  assume "trim (transcript s) = []"
  then show "handleSendText net blocked s = s"
    by (simp add: handleSendText_def)
next
  assume ne: "trim (transcript s) \<noteq> []"
  let ?u = "trim (transcript s)"
  let ?s2 = "emit (Fetch (textRequest ?u))
               ((setMessages [\<lparr>role = User, content = Some ?u\<rparr>] s)
                  \<lparr>transcript := [], isLoading := True\<rparr>)"
  obtain err s3 where r: "textReply blocked (net (textRequest ?u)) ?s2 = (err, s3)"
    by (cases "textReply blocked (net (textRequest ?u)) ?s2")
  have h: "handleSendText net blocked s
           = (case err of None \<Rightarrow> s3
              | Some e \<Rightarrow> setMessages
                  [assistantSays ''Sorry, I couldn't process that request. Please try again.''] s3)
             \<lparr>isLoading := False\<rparr>"
    using ne r by (simp add: handleSendText_def Let_def)
  obtain rest where rest: "effects s3 = effects ?s2 @ rest" "fetches rest = []"
    using textReply_effects[of blocked "net (textRequest ?u)" ?s2] r by auto
  obtain tail where tail: "messages s3 = messages ?s2 @ tail"
      "list_all (\<lambda>m. role m = Assistant) tail"
    using textReply_messages[of blocked "net (textRequest ?u)" ?s2] r by auto
  show "\<exists>rest. effects (handleSendText net blocked s)
                  = effects s @ [SetMessages [\<lparr>role = User, content = Some ?u\<rparr>],
                                 Fetch (textRequest ?u)] @ rest
                \<and> fetches rest = []"
    using h rest
    by (cases err) (simp_all add: effects_emit effects_setMessages fetches_def)
  show "\<exists>tail. messages (handleSendText net blocked s)
                  = messages s @ \<lparr>role = User, content = Some ?u\<rparr> # tail
                \<and> list_all (\<lambda>m. role m = Assistant) tail"
    using h tail
    by (cases err) (simp_all add: messages_emit messages_setMessages assistantSays_def)
next
  show "formField (textRequest userMessage) = ''audio''"
    by (simp add: textRequest_def chatRequest_def)
  show "formBlob (textRequest userMessage)
        = \<lparr>blobBytes = utf8 userMessage, blobType = ''text/plain''\<rparr>"
    by (simp add: textRequest_def chatRequest_def)
qed

theorem C7_send_text_witness:
  "trim (transcript (init_main\<lparr>transcript := ''  ''\<rparr>)) = []
   \<and> handleSendText (replyWith 200 (JsonObject helloData)) False (init_main\<lparr>transcript := ''  ''\<rparr>)
       = init_main\<lparr>transcript := ''  ''\<rparr>
   \<and> trim (transcript (init_main\<lparr>transcript := '' hi ''\<rparr>)) = ''hi''
   \<and> messages (handleSendText (replyWith 200 (JsonObject helloData)) False
        (init_main\<lparr>transcript := '' hi ''\<rparr>))
       = [\<lparr>role = User, content = Some ''hi''\<rparr>, \<lparr>role = Assistant, content = Some ''hi there''\<rparr>]
   \<and> fetches (effects (handleSendText (replyWith 200 (JsonObject helloData)) False
        (init_main\<lparr>transcript := '' hi ''\<rparr>)))
       = [chatRequest \<lparr>blobBytes = [104, 105], blobType = ''text/plain''\<rparr> ''text.wav'']"
  using C7_send_text[where s = "init_main\<lparr>transcript := ''  ''\<rparr>"
      and net = "replyWith 200 (JsonObject helloData)" and blocked = False and userMessage = "''hi''"]
    C7_send_text[where s = "init_main\<lparr>transcript := '' hi ''\<rparr>"
      and net = "replyWith 200 (JsonObject helloData)" and blocked = False and userMessage = "''hi''"]
  by (simp add: init_main_def trim_def isStrWhiteSpace_def handleSendText_def textReply_def
      replyWith_def helloData_def Let_def setMessages_def emit_def playDecoded_def
      decodeHexRegex_def isLineTerminator_def textRequest_def chatRequest_def utf8_def fetches_def)


subsection \<open>The playback handle of part\_000\<close>

lemma playingNow_snoc: "playingNow (es @ [e]) = playingStep (playingNow es) e"
  by (simp add: playingNow_def)

lemma soloFrom_snoc:
  "soloFrom cur (es @ [e])
     = (soloFrom cur es \<and> length (playingStep (foldl playingStep cur es) e) \<le> 1)"
  by (induction es arbitrary: cur) auto

lemma neverTwoPlaying_snoc:
  "neverTwoPlaying (es @ [e]) = (neverTwoPlaying es \<and> length (playingNow (es @ [e])) \<le> 1)"
  by (simp add: neverTwoPlaying_def soloFrom_snoc playingNow_def)

lemma silent_step: "silent e \<Longrightarrow> playingStep cur e = cur"
  by (cases e) simp_all

lemma playingNow_silent: "silent e \<Longrightarrow> playingNow (es @ [e]) = playingNow es"
  by (simp add: playingNow_snoc silent_step)

lemma handleOwns_silent: "silent e \<Longrightarrow> handleOwns (es @ [e]) r = handleOwns es r"
  by (auto simp: handleOwns_def neverTwoPlaying_snoc playingNow_snoc silent_step
      split: option.splits)

lemma handleOwns_quiet: "handleOwns es r \<Longrightarrow> playingNow es = [] \<Longrightarrow> handleOwns es r'"
  by (simp add: handleOwns_def)

text \<open>Pausing the element of the handle, or its end, leaves nothing playing.\<close>

lemma handleOwns_pause:
  "handleOwns es (Some a) \<Longrightarrow>
   handleOwns (es @ [AudioPause (audioId a)]) r \<and> playingNow (es @ [AudioPause (audioId a)]) = []"
  by (auto simp: handleOwns_def neverTwoPlaying_snoc playingNow_snoc)

lemma handleOwns_ended:
  "handleOwns es (Some a) \<Longrightarrow>
   handleOwns (es @ [AudioEnded (audioId a)]) r \<and> playingNow (es @ [AudioEnded (audioId a)]) = []"
  by (auto simp: handleOwns_def neverTwoPlaying_snoc playingNow_snoc)

lemma handleOwns_play_fresh:
  "handleOwns es r \<Longrightarrow> playingNow es = [] \<Longrightarrow>
   handleOwns (es @ [AudioPlay (audioId a)]) (Some a)"
  by (auto simp: handleOwns_def neverTwoPlaying_snoc playingNow_snoc)

lemma handleOwns_replay:
  "handleOwns es (Some a) \<Longrightarrow> handleOwns (es @ [AudioPlay (audioId a)]) (Some a)"
  by (auto simp: handleOwns_def neverTwoPlaying_snoc playingNow_snoc)

text \<open>What \<^verbatim>\<open>playAudioResponse\<close> does to its host, in order.\<close>

lemma effects_playAudioResponse:
  "effects (playAudioResponse blocked audioHex s)
     = effects s
       @ [CreateObjectURL (nextId s) \<lparr>blobBytes = decodeHexLoop audioHex, blobType = ''audio/wav''\<rparr>]
       @ (case audioRef s of None \<Rightarrow> []
          | Some old \<Rightarrow> [AudioPause (audioId old), RevokeObjectURL (audioSrc old)])
       @ [if blocked then AudioBlocked (nextId s + 1) else AudioPlay (nextId s + 1)]"
  by (simp add: playAudioResponse_def Let_def emit_def split: option.split)

lemma audioRef_playAudioResponse:
  "audioRef (playAudioResponse blocked audioHex s)
     = Some \<lparr>audioId = nextId s + 1, audioSrc = nextId s\<rparr>"
  by (simp add: playAudioResponse_def Let_def emit_def split: option.split)

lemma owns_playAudioResponse:
  assumes "handleOwns (effects s) (audioRef s)"
  shows "handleOwns (effects (playAudioResponse blocked audioHex s))
           (audioRef (playAudioResponse blocked audioHex s))"
proof -
  let ?c = "CreateObjectURL (nextId s)
              \<lparr>blobBytes = decodeHexLoop audioHex, blobType = ''audio/wav''\<rparr>"
  let ?new = "\<lparr>audioId = nextId s + 1, audioSrc = nextId s\<rparr>"
  let ?last = "if blocked then AudioBlocked (nextId s + 1) else AudioPlay (nextId s + 1)"
  have c: "handleOwns (effects s @ [?c]) (audioRef s)"
    using assms by (simp add: handleOwns_silent)
  obtain es where es: "effects (playAudioResponse blocked audioHex s) = es @ [?last]"
      and q: "handleOwns es (Some ?new)" "playingNow es = []"
  proof (cases "audioRef s")
    case None
    then have "playingNow (effects s @ [?c]) = []"
      using c by (simp add: handleOwns_def)
    moreover have "effects (playAudioResponse blocked audioHex s) = (effects s @ [?c]) @ [?last]"
      using None by (simp add: effects_playAudioResponse)
    ultimately show ?thesis
      using that c handleOwns_quiet by blast
  next
    case (Some old)
    let ?p = "AudioPause (audioId old)"
    let ?r = "RevokeObjectURL (audioSrc old)"
    have p: "handleOwns ((effects s @ [?c]) @ [?p]) (Some ?new)"
        "playingNow ((effects s @ [?c]) @ [?p]) = []"
      using c Some handleOwns_pause[of "effects s @ [?c]" old] by simp_all
    then have r: "handleOwns (((effects s @ [?c]) @ [?p]) @ [?r]) (Some ?new)"
        "playingNow (((effects s @ [?c]) @ [?p]) @ [?r]) = []"
      by (simp_all only: handleOwns_silent playingNow_silent silent.simps)
    moreover have "effects (playAudioResponse blocked audioHex s)
                   = (((effects s @ [?c]) @ [?p]) @ [?r]) @ [?last]"
      using Some by (simp add: effects_playAudioResponse)
    ultimately show ?thesis
      using that by blast
  qed
  show ?thesis
  proof (cases blocked)
    case True
    then show ?thesis
      using es q by (simp add: audioRef_playAudioResponse handleOwns_silent)
  next
    case False
    then show ?thesis
      using es q handleOwns_play_fresh[of es "Some ?new" ?new]
      by (simp add: audioRef_playAudioResponse)
  qed
qed

lemma owns_setMessages:
  "handleOwns (effects (setMessages new s)) (audioRef (setMessages new s))
     = handleOwns (effects s) (audioRef s)"
  by (simp add: setMessages_def handleOwns_silent)

lemma owns_emit:
  "silent e \<Longrightarrow>
   handleOwns (effects (emit e s)) (audioRef (emit e s)) = handleOwns (effects s) (audioRef s)"
  by (simp add: emit_def handleOwns_silent)

lemma owns_sendAudioReply0:
  assumes "handleOwns (effects s) (audioRef s)"
  shows "handleOwns (effects (snd (sendAudioReply0 blocked result s)))
           (audioRef (snd (sendAudioReply0 blocked result s)))"
  using assms
  by (simp add: sendAudioReply0_def Let_def owns_setMessages owns_playAudioResponse
      split: fetch_result.split json_body.split option.split)

lemma owns_sendAudioEnd0:
  assumes "handleOwns (effects s) (audioRef s)"
  shows "handleOwns (effects (sendAudioEnd0 blocked result s))
           (audioRef (sendAudioEnd0 blocked result s))"
proof -
  obtain err s2 where r: "sendAudioReply0 blocked result s = (err, s2)"
    by (cases "sendAudioReply0 blocked result s")
  have "handleOwns (effects s2) (audioRef s2)"
    using owns_sendAudioReply0[OF assms, of blocked result] r by simp
  then show ?thesis
    using r owns_setMessages[of _ s2]
    by (cases err) (simp_all add: sendAudioEnd0_def)
qed

lemma owns_recordingError0:
  "handleOwns (effects (recordingError0 s)) (audioRef (recordingError0 s))
     = handleOwns (effects s) (audioRef s)"
  using owns_setMessages[of _ s] by (simp add: recordingError0_def)

lemma owns_noAudioRecorded0:
  "handleOwns (effects (noAudioRecorded0 s)) (audioRef (noAudioRecorded0 s))
     = handleOwns (effects s) (audioRef s)"
  using owns_setMessages[of _ s] by (simp add: noAudioRecorded0_def)

text \<open>The end of an element, of the handle or not, starts nothing.\<close>

lemma handleOwns_ended_any: "handleOwns es r \<Longrightarrow> handleOwns (es @ [AudioEnded x]) r"
  by (cases r) (auto simp: handleOwns_def neverTwoPlaying_snoc playingNow_snoc split: if_splits)

text \<open>
  The invariant holds in every state part\_000 can reach, the states in the middle of a send
  included.
\<close>

lemma owns_reachable0: "reachable0 s \<Longrightarrow> handleOwns (effects s) (audioRef s)"
proof (induction rule: reachable0.induct)
  case r0_init
  show ?case
    by (simp add: init0_def handleOwns_def neverTwoPlaying_def playingNow_def)
next
  case (r0_status s st)
  then show ?case by simp
next
  case (r0_acquired s)
  then show ?case
    by (simp add: recorderStart0_def Let_def emit_def handleOwns_silent)
next
  case (r0_data s chunk)
  then show ?case by (simp add: ondataavailable0_def)
next
  case (r0_error s)
  then show ?case by (simp add: owns_recordingError0)
next
  case (r0_empty s)
  then show ?case by (simp add: owns_noAudioRecorded0)
next
  case (r0_send_begin s audioBlob)
  then show ?case
    by (simp add: sendAudioBegin0_def emit_def handleOwns_silent)
next
  case (r0_send_end s blocked result)
  then show ?case by (simp add: owns_sendAudioEnd0)
next
  case (r0_ended s a)
  from r0_ended.IH have "handleOwns (effects s @ [AudioEnded (audioId a)]) (audioRef s)"
    by (rule handleOwns_ended_any)
  moreover have "effects (onended0 a s)
                 = (effects s @ [AudioEnded (audioId a)]) @ [RevokeObjectURL (audioSrc a)]"
    and "audioRef (onended0 a s) = audioRef s"
    by (simp_all add: onended0_def emit_def)
  ultimately show ?case
    by (simp only: handleOwns_silent silent.simps)
next
  case (r0_replay s)
  then show ?case
    by (cases "audioRef s") (simp_all add: replay0_def emit_def handleOwns_replay)
qed

text \<open>
  The handlers run without interruption are paths of \<open>reachable0\<close>: a send is its two
  pieces one after the other, and so is every branch of \<^verbatim>\<open>toggleRecording\<close>.
\<close>

lemma sendAudioTry0_phases:
  "sendAudioTry0 net blocked b s
     = sendAudioReply0 blocked (net (chatRequest b ''recording.wav''))
         (emit (Fetch (chatRequest b ''recording.wav'')) s)"
  by (simp add: sendAudioTry0_def sendAudioReply0_def Let_def)

lemma handleSendAudio0_phases:
  "blobSize b \<noteq> 0 \<Longrightarrow>
   handleSendAudio0 net blocked (Some b) s
     = sendAudioEnd0 blocked (net (chatRequest b ''recording.wav'')) (sendAudioBegin0 b s)"
  by (simp add: handleSendAudio0_def sendAudioEnd0_def sendAudioBegin0_def sendAudioTry0_phases
      Let_def)

lemma reachable0_handleSendAudio0:
  assumes "reachable0 s"
  shows "reachable0 (handleSendAudio0 net blocked audioBlob s)"
proof (cases audioBlob)
  case None
  then show ?thesis
    using r0_empty[OF assms] by (simp add: handleSendAudio0_def)
next
  case (Some b)
  show ?thesis
  proof (cases "blobSize b = 0")
    case True
    then show ?thesis
      using Some r0_empty[OF assms] by (simp add: handleSendAudio0_def)
  next
    case False
    then show ?thesis
      using Some r0_send_end[OF r0_send_begin[OF assms]]
      by (simp add: handleSendAudio0_phases)
  qed
qed

lemma reachable0_toggleRecording0:
  assumes "reachable0 s"
  shows "reachable0 (toggleRecording0 granted lastChunk transcode net blocked s)"
proof (cases "status s = Recording")
  case True
  let ?s1 = "s\<lparr>status := Processing\<rparr>"
  have s1: "reachable0 ?s1"
    using assms by (rule r0_status)
  show ?thesis
  proof (cases "mediaRecorder s")
    case None
    then show ?thesis
      using True r0_error[OF s1]
      by (simp add: toggleRecording0_def recorderStop0_def)
  next
    case (Some stream)
    let ?s2 = "ondataavailable0 lastChunk ?s1"
    have s2: "reachable0 ?s2"
      using s1 by (rule r0_data)
    have stop: "recorderStop0 lastChunk ?s1
                = (Inr \<lparr>blobBytes = concat (map blobBytes (audioChunks ?s2)),
                        blobType = ''audio/webm''\<rparr>, ?s2)"
      using Some by (simp add: recorderStop0_def Let_def)
    show ?thesis
      using True stop r0_error[OF s2] reachable0_handleSendAudio0[OF s2]
      by (simp add: toggleRecording0_def split: sum.split)
  qed
next
  case False
  show ?thesis
  proof (cases granted)
    case True
    have "reachable0 ((snd (recorderStart0 True s))\<lparr>status := Recording\<rparr>)"
      using assms by (intro r0_status r0_acquired)
    then show ?thesis
      using False True by (simp add: toggleRecording0_def recorderStart0_def Let_def)
  next
    case granted: False
    then show ?thesis
      using False r0_error[OF assms] by (simp add: toggleRecording0_def recorderStart0_def)
  qed
qed

text \<open>
  Claim C6, as stated, fails on main-page.tsx, which keeps no handle: after two successful
  sends in a row the element of the first reply and the element of the second play together.
\<close>

theorem C6_main_page_two_playing:
  "playingNow (effects
     (handleSendAudio_main Inr (replyWith 200 (JsonObject helloData)) False (Some recording)
       (handleSendAudio_main Inr (replyWith 200 (JsonObject helloData)) False (Some recording)
          init_main))) = [1, 3]
   \<and> \<not> neverTwoPlaying (effects
     (handleSendAudio_main Inr (replyWith 200 (JsonObject helloData)) False (Some recording)
       (handleSendAudio_main Inr (replyWith 200 (JsonObject helloData)) False (Some recording)
          init_main)))"
  by (simp add: handleSendAudio_main_def audioFinish_def audioReply_def replyWith_def helloData_def
      init_main_def Let_def setMessages_def emit_def playDecoded_def decodeHexRegex_def
      isLineTerminator_def playingNow_def neverTwoPlaying_def)

text \<open>
  Claim C6, amended: in part\_000, whenever \<^verbatim>\<open>playAudioResponse\<close> runs while \<^verbatim>\<open>audioRef\<close> holds
  an earlier element, in whatever state, it pauses that element and revokes its URL before
  it starts the new one; so does the one call of it in the program, in the second piece of a
  send, which resumes in the middle of the send; and in every state the component can
  reach, in the middle of a send or not and whatever events came in between, no two audio
  elements have played at the same time.
\<close>

theorem C6_playback_handle:
  "(audioRef s = Some old \<longrightarrow>
      effects (playAudioResponse blocked audioHex s)
        = effects s @ [CreateObjectURL (nextId s)
                         \<lparr>blobBytes = decodeHexLoop audioHex, blobType = ''audio/wav''\<rparr>,
                       AudioPause (audioId old), RevokeObjectURL (audioSrc old),
                       if blocked then AudioBlocked (nextId s + 1)
                       else AudioPlay (nextId s + 1)])
   \<and> (audioRef s = Some old \<and> ok st \<and> dataStatus d = Some ''success''
        \<and> dataAudio d = Some audioHex \<and> audioHex \<noteq> [] \<longrightarrow>
      effects (sendAudioEnd0 blocked (Response st (JsonObject d)) s)
        = effects s @ [SetMessages [\<lparr>role = User, content = dataTranscript d\<rparr>,
                                     \<lparr>role = Assistant, content = dataResponseText d\<rparr>],
                       CreateObjectURL (nextId s)
                         \<lparr>blobBytes = decodeHexLoop audioHex, blobType = ''audio/wav''\<rparr>,
                       AudioPause (audioId old), RevokeObjectURL (audioSrc old),
                       if blocked then AudioBlocked (nextId s + 1)
                       else AudioPlay (nextId s + 1)])
   \<and> (reachable0 s \<longrightarrow>
      neverTwoPlaying (effects s)
      \<and> reachable0 (sendAudioBegin0 audioBlob s)
      \<and> status (sendAudioBegin0 audioBlob s) = Processing
      \<and> neverTwoPlaying (effects (sendAudioEnd0 blocked result (sendAudioBegin0 audioBlob s))))"
proof (intro conjI impI)
  assume "audioRef s = Some old"
  then show "effects (playAudioResponse blocked audioHex s)
        = effects s @ [CreateObjectURL (nextId s)
                         \<lparr>blobBytes = decodeHexLoop audioHex, blobType = ''audio/wav''\<rparr>,
                       AudioPause (audioId old), RevokeObjectURL (audioSrc old),
                       if blocked then AudioBlocked (nextId s + 1)
                       else AudioPlay (nextId s + 1)]"
    by (simp add: effects_playAudioResponse)
next
  assume "audioRef s = Some old \<and> ok st \<and> dataStatus d = Some ''success''
        \<and> dataAudio d = Some audioHex \<and> audioHex \<noteq> []"
  then show "effects (sendAudioEnd0 blocked (Response st (JsonObject d)) s)
        = effects s @ [SetMessages [\<lparr>role = User, content = dataTranscript d\<rparr>,
                                     \<lparr>role = Assistant, content = dataResponseText d\<rparr>],
                       CreateObjectURL (nextId s)
                         \<lparr>blobBytes = decodeHexLoop audioHex, blobType = ''audio/wav''\<rparr>,
                       AudioPause (audioId old), RevokeObjectURL (audioSrc old),
                       if blocked then AudioBlocked (nextId s + 1)
                       else AudioPlay (nextId s + 1)]"
    by (simp add: sendAudioEnd0_def sendAudioReply0_def Let_def effects_playAudioResponse
        setMessages_def)
next
  assume r: "reachable0 s"
  show "neverTwoPlaying (effects s)"
    using owns_reachable0[OF r] by (simp add: handleOwns_def)
  show b: "reachable0 (sendAudioBegin0 audioBlob s)"
    using r by (rule r0_send_begin)
  show "status (sendAudioBegin0 audioBlob s) = Processing"
    by (simp add: sendAudioBegin0_def emit_def)
  show "neverTwoPlaying (effects (sendAudioEnd0 blocked result (sendAudioBegin0 audioBlob s)))"
    using owns_reachable0[OF r0_send_end[OF b, of blocked result]] by (simp add: handleOwns_def)
qed

text \<open>
  The witness is a second send that resumes while the element of the first reply is still
  the one of the handle.
\<close>

theorem C6_playback_handle_witness:
  "reachable0 (sendAudioBegin0 recording
      (handleSendAudio0 (replyWith 200 (JsonObject helloData)) False (Some recording) init0))
   \<and> status (sendAudioBegin0 recording
      (handleSendAudio0 (replyWith 200 (JsonObject helloData)) False (Some recording) init0))
       = Processing
   \<and> audioRef (sendAudioBegin0 recording
      (handleSendAudio0 (replyWith 200 (JsonObject helloData)) False (Some recording) init0))
       = Some \<lparr>audioId = 1, audioSrc = 0\<rparr>
   \<and> effects (sendAudioEnd0 False (Response 200 (JsonObject helloData))
        (sendAudioBegin0 recording
          (handleSendAudio0 (replyWith 200 (JsonObject helloData)) False (Some recording) init0)))
       = effects (sendAudioBegin0 recording
          (handleSendAudio0 (replyWith 200 (JsonObject helloData)) False (Some recording) init0))
         @ [SetMessages [\<lparr>role = User, content = Some ''hello''\<rparr>,
                         \<lparr>role = Assistant, content = Some ''hi there''\<rparr>],
            CreateObjectURL 2 \<lparr>blobBytes = [72, 101, 108, 108, 111], blobType = ''audio/wav''\<rparr>,
            AudioPause 1, RevokeObjectURL 0, AudioPlay 3]
   \<and> neverTwoPlaying (effects (sendAudioEnd0 False (Response 200 (JsonObject helloData))
        (sendAudioBegin0 recording
          (handleSendAudio0 (replyWith 200 (JsonObject helloData)) False (Some recording) init0))))"
proof -
  let ?first = "handleSendAudio0 (replyWith 200 (JsonObject helloData)) False (Some recording) init0"
  let ?s = "sendAudioBegin0 recording ?first"
  have r0: "reachable0 ?first"
    by (rule reachable0_handleSendAudio0[OF r0_init])
  have fields: "audioRef ?s = Some \<lparr>audioId = 1, audioSrc = 0\<rparr>" "nextId ?s = 2"
    by (simp_all add: sendAudioBegin0_def handleSendAudio0_def sendAudioTry0_def replyWith_def
        helloData_def ok_def blobSize_def recording_def init0_def Let_def setMessages_def emit_def
        playAudioResponse_def)
  have d: "ok 200" "dataStatus helloData = Some ''success''"
      "dataAudio helloData = Some ''48656c6c6f''" "dataTranscript helloData = Some ''hello''"
      "dataResponseText helloData = Some ''hi there''"
    by (simp_all add: ok_def helloData_def)
  have bytes: "decodeHexLoop ''48656c6c6f'' = [72, 101, 108, 108, 111]"
    by code_simp
  note c6 = C6_playback_handle[where s = ?first and audioBlob = recording and blocked = False
      and result = "Response 200 (JsonObject helloData)" and old = "\<lparr>audioId = 1, audioSrc = 0\<rparr>"
      and st = 200 and d = helloData and audioHex = "''48656c6c6f''"]
  note c6' = C6_playback_handle[where s = ?s and audioBlob = recording and blocked = False
      and result = "Response 200 (JsonObject helloData)" and old = "\<lparr>audioId = 1, audioSrc = 0\<rparr>"
      and st = 200 and d = helloData and audioHex = "''48656c6c6f''"]
  have "reachable0 ?first \<longrightarrow>
      neverTwoPlaying (effects ?first)
      \<and> reachable0 ?s
      \<and> status ?s = Processing
      \<and> neverTwoPlaying (effects (sendAudioEnd0 False (Response 200 (JsonObject helloData)) ?s))"
    using c6 by (elim conjE) assumption
  then have "reachable0 ?s" "status ?s = Processing"
      "neverTwoPlaying (effects (sendAudioEnd0 False (Response 200 (JsonObject helloData)) ?s))"
    using r0 by simp_all
  moreover have "audioRef ?s = Some \<lparr>audioId = 1, audioSrc = 0\<rparr> \<and> ok 200
        \<and> dataStatus helloData = Some ''success''
        \<and> dataAudio helloData = Some ''48656c6c6f'' \<and> ''48656c6c6f'' \<noteq> [] \<longrightarrow>
      effects (sendAudioEnd0 False (Response 200 (JsonObject helloData)) ?s)
        = effects ?s @ [SetMessages [\<lparr>role = User, content = dataTranscript helloData\<rparr>,
                                     \<lparr>role = Assistant, content = dataResponseText helloData\<rparr>],
                       CreateObjectURL (nextId ?s)
                         \<lparr>blobBytes = decodeHexLoop ''48656c6c6f'', blobType = ''audio/wav''\<rparr>,
                       AudioPause (audioId \<lparr>audioId = 1, audioSrc = 0\<rparr>),
                       RevokeObjectURL (audioSrc \<lparr>audioId = 1, audioSrc = 0\<rparr>),
                       if False then AudioBlocked (nextId ?s + 1)
                       else AudioPlay (nextId ?s + 1)]"
    using c6' by (elim conjE) assumption
  then have "effects (sendAudioEnd0 False (Response 200 (JsonObject helloData)) ?s)
       = effects ?s
         @ [SetMessages [\<lparr>role = User, content = Some ''hello''\<rparr>,
                         \<lparr>role = Assistant, content = Some ''hi there''\<rparr>],
            CreateObjectURL 2 \<lparr>blobBytes = [72, 101, 108, 108, 111], blobType = ''audio/wav''\<rparr>,
            AudioPause 1, RevokeObjectURL 0, AudioPlay 3]"
    using fields d bytes by simp
  ultimately show ?thesis
    using fields(1) by simp
qed

subsection \<open>The capture device\<close>

lemma heldStep_off: "offCapture e \<Longrightarrow> heldStep cur e = cur"
  by (cases e) simp_all

lemma foldl_heldStep_off: "list_all offCapture es \<Longrightarrow> foldl heldStep cur es = cur"
  by (induction es arbitrary: cur) (simp_all add: heldStep_off)

lemma heldStreams_off: "list_all offCapture rest \<Longrightarrow> heldStreams (es @ rest) = heldStreams es"
  by (simp add: heldStreams_def foldl_heldStep_off)

lemma heldStreams_snoc: "heldStreams (es @ [e]) = heldStep (heldStreams es) e"
  by (simp add: heldStreams_def)

lemma sendAudioEnd1_held:
  "heldStreams (effects (sendAudioEnd1 blocked result s)) = heldStreams (effects s)"
  using sendAudioEnd1_effects[of blocked result s] heldStreams_off by auto

lemma handleSendText_held:
  "heldStreams (effects (handleSendText net blocked s)) = heldStreams (effects s)"
proof (cases "trim (transcript s) = []")
  case True
  then show ?thesis by (simp add: handleSendText_def)
next
  case False
  let ?u = "trim (transcript s)"
  let ?s2 = "emit (Fetch (textRequest ?u))
               ((setMessages [\<lparr>role = User, content = Some ?u\<rparr>] s)
                  \<lparr>transcript := [], isLoading := True\<rparr>)"
  obtain err s3 where r: "textReply blocked (net (textRequest ?u)) ?s2 = (err, s3)"
    by (cases "textReply blocked (net (textRequest ?u)) ?s2")
  obtain rest where rest: "effects s3 = effects ?s2 @ rest" "list_all offCapture rest"
    using textReply_effects[of blocked "net (textRequest ?u)" ?s2] r by auto
  have "\<exists>zs. effects (handleSendText net blocked s) = effects s @ zs \<and> list_all offCapture zs"
    using False r rest
    by (cases err) (simp_all add: handleSendText_def Let_def effects_emit effects_setMessages)
  then show ?thesis
    using heldStreams_off by auto
qed

text \<open>
  \<^verbatim>\<open>onstop\<close> stops the tracks of the stream of its recorder, then calls \<^verbatim>\<open>fetch\<close> with the
  payload built from the chunks, and is suspended there; the statements that run when
  \<^verbatim>\<open>fetch\<close> resolves leave the capture device alone.
\<close>

lemma effects_onstopBegin1:
  "effects (onstopBegin1 stream s)
     = effects s @ [TrackStop stream,
         Fetch (chatRequest \<lparr>blobBytes = concat (map blobBytes (audioChunksRef s)),
                             blobType = ''audio/wav''\<rparr> ''recording.wav'')]"
  by (simp add: onstopBegin1_def Let_def emit_def)

lemma onstop1_phases:
  "onstop1 net blocked stream s
     = sendAudioEnd1 blocked
         (net (chatRequest \<lparr>blobBytes = concat (map blobBytes (audioChunksRef s)),
                            blobType = ''audio/wav''\<rparr> ''recording.wav''))
         (onstopBegin1 stream s)"
  by (simp add: onstop1_def onstopBegin1_def handleSendAudio1_phases Let_def emit_def)

lemma held_onstopBegin1:
  "heldStreams (effects (onstopBegin1 stream s)) = removeAll stream (heldStreams (effects s))"
proof -
  have "effects (onstopBegin1 stream s)
        = (effects s @ [TrackStop stream])
          @ [Fetch (chatRequest \<lparr>blobBytes = concat (map blobBytes (audioChunksRef s)),
                                 blobType = ''audio/wav''\<rparr> ''recording.wav'')]"
    by (simp add: effects_onstopBegin1)
  then show ?thesis
    by (simp only: heldStreams_snoc heldStep.simps)
qed

lemma held_onstop1:
  "heldStreams (effects (onstop1 net blocked stream s)) = removeAll stream (heldStreams (effects s))"
  by (simp add: onstop1_phases sendAudioEnd1_held held_onstopBegin1)

lemma held_userMediaResolved1:
  "heldStreams (effects (userMediaResolved1 fault s)) = heldStreams (effects s) @ [nextId s]"
  by (cases fault)
    (simp_all add: userMediaResolved1_def Let_def emit_def setMessages_def heldStreams_def)

lemma toggle_after_start1:
  "toggleRecording1 (userMediaResolved1 NoFault s)
     = (CallStop (nextId s), (userMediaResolved1 NoFault s)\<lparr>isRecording := False\<rparr>)"
  by (simp add: toggleRecording1_def userMediaResolved1_def Let_def emit_def)

lemma held_toggleRecording1:
  "heldStreams (effects (snd (toggleRecording1 s))) = heldStreams (effects s)"
  by (simp add: toggleRecording1_def)

lemma held_ondataavailable1:
  "heldStreams (effects (ondataavailable1 chunk s)) = heldStreams (effects s)"
  by (simp add: ondataavailable1_def)

lemma held_userMediaRejected1:
  "heldStreams (effects (userMediaRejected1 s)) = heldStreams (effects s)"
  by (simp add: userMediaRejected1_def effects_setMessages heldStreams_snoc)

text \<open>
  The handler does not keep a second start from running before the first has acquired its
  stream: a click finds the flag clear until \<^verbatim>\<open>getUserMedia\<close> has resolved. Two such clicks
  acquire two streams, the stop releases the second, and the first stays captured.
\<close>

lemma double_start1_keeps_first_stream:
  "toggleRecording1 init1 = (CallGetUserMedia, init1)
   \<and> heldStreams (effects (userMediaResolved1 NoFault (userMediaResolved1 NoFault init1))) = [0, 1]
   \<and> fst (toggleRecording1 (userMediaResolved1 NoFault (userMediaResolved1 NoFault init1))) = CallStop 1
   \<and> heldStreams (effects (onstop1 net blocked 1
        (snd (toggleRecording1 (userMediaResolved1 NoFault (userMediaResolved1 NoFault init1)))))) = [0]"
proof -
  have n: "nextId init1 = 0" "nextId (userMediaResolved1 NoFault init1) = 1"
      "heldStreams (effects init1) = []"
    by (simp_all add: init1_def userMediaResolved1_def Let_def emit_def heldStreams_def)
  show ?thesis
    using n
    by (simp add: held_onstop1 held_toggleRecording1 held_userMediaResolved1 toggle_after_start1)
      (simp add: toggleRecording1_def init1_def)
qed

text \<open>
  Claim C8, as stated, fails on part\_000: its recorder never stops the tracks of the stream
  it acquired, so after a start and a stop, the turn complete and the state idle, the
  stream is still captured.
\<close>

theorem C8_part_000_keeps_stream:
  "status (toggleRecording0 True recording (\<lambda>b. Inr (blobBytes b))
        (replyWith 200 (JsonObject helloData)) False
        (toggleRecording0 True recording (\<lambda>b. Inr (blobBytes b))
           (replyWith 200 (JsonObject helloData)) False init0)) = Idle
   \<and> heldStreams (effects
       (toggleRecording0 True recording (\<lambda>b. Inr (blobBytes b))
          (replyWith 200 (JsonObject helloData)) False
          (toggleRecording0 True recording (\<lambda>b. Inr (blobBytes b))
             (replyWith 200 (JsonObject helloData)) False init0))) = [0]"
  by (simp add: toggleRecording0_def recorderStart0_def recorderStop0_def ondataavailable0_def
      handleSendAudio0_def sendAudioTry0_def playAudioResponse_def replyWith_def helloData_def
      ok_def blobSize_def recording_def init0_def Let_def setMessages_def emit_def
      heldStreams_def)

text \<open>
  Claim C8, amended: in part\_001 the stream acquired when \<^verbatim>\<open>getUserMedia\<close> resolves is held
  from then on (whether or not the recorder could then be created and started), through
  the chunks, the click that stops the recording, a refused start and the text messages,
  until the stop of its recording; every stop of a recording (\<^verbatim>\<open>onstop\<close>) releases the
  capture device of that recording, that is, stops the tracks of the stream its recorder was
  created on and of no other, upon producing the finalized payload and before the payload is
  sent, and nothing that follows in the handler captures again; so a recording that starts
  when no stream is held, and is stopped before another start, leaves none held.
\<close>

theorem C8_capture_released:
  "effects (onstopBegin1 stream s)
     = effects s @ [TrackStop stream,
         Fetch (chatRequest \<lparr>blobBytes = concat (map blobBytes (audioChunksRef s)),
                             blobType = ''audio/wav''\<rparr> ''recording.wav'')]
   \<and> onstop1 net blocked stream s
     = sendAudioEnd1 blocked
         (net (chatRequest \<lparr>blobBytes = concat (map blobBytes (audioChunksRef s)),
                            blobType = ''audio/wav''\<rparr> ''recording.wav''))
         (onstopBegin1 stream s)
   \<and> heldStreams (effects (onstopBegin1 stream s)) = removeAll stream (heldStreams (effects s))
   \<and> heldStreams (effects (sendAudioEnd1 blocked result s)) = heldStreams (effects s)
   \<and> heldStreams (effects (onstop1 net blocked stream s))
     = removeAll stream (heldStreams (effects s))
   \<and> heldStreams (effects (userMediaResolved1 fault s)) = heldStreams (effects s) @ [nextId s]
   \<and> toggleRecording1 (userMediaResolved1 NoFault s)
     = (CallStop (nextId s), (userMediaResolved1 NoFault s)\<lparr>isRecording := False\<rparr>)
   \<and> heldStreams (effects (snd (toggleRecording1 s))) = heldStreams (effects s)
   \<and> heldStreams (effects (ondataavailable1 chunk s)) = heldStreams (effects s)
   \<and> heldStreams (effects (userMediaRejected1 s)) = heldStreams (effects s)
   \<and> heldStreams (effects (handleSendText net blocked s)) = heldStreams (effects s)
   \<and> (heldStreams (effects s) = [] \<longrightarrow>
        heldStreams (effects (onstop1 net blocked (nextId s)
          (ondataavailable1 chunk (snd (toggleRecording1 (userMediaResolved1 NoFault s)))))) = [])"
proof (intro conjI impI)
  show "effects (onstopBegin1 stream s)
     = effects s @ [TrackStop stream,
         Fetch (chatRequest \<lparr>blobBytes = concat (map blobBytes (audioChunksRef s)),
                             blobType = ''audio/wav''\<rparr> ''recording.wav'')]"
    by (rule effects_onstopBegin1)
  show "onstop1 net blocked stream s
     = sendAudioEnd1 blocked
         (net (chatRequest \<lparr>blobBytes = concat (map blobBytes (audioChunksRef s)),
                            blobType = ''audio/wav''\<rparr> ''recording.wav''))
         (onstopBegin1 stream s)"
    by (rule onstop1_phases)
  show "heldStreams (effects (onstopBegin1 stream s)) = removeAll stream (heldStreams (effects s))"
    by (rule held_onstopBegin1)
  show "heldStreams (effects (sendAudioEnd1 blocked result s)) = heldStreams (effects s)"
    by (rule sendAudioEnd1_held)
  show "heldStreams (effects (onstop1 net blocked stream s))
     = removeAll stream (heldStreams (effects s))"
    by (rule held_onstop1)
  show "heldStreams (effects (userMediaResolved1 fault s)) = heldStreams (effects s) @ [nextId s]"
    by (rule held_userMediaResolved1)
  show "toggleRecording1 (userMediaResolved1 NoFault s)
     = (CallStop (nextId s), (userMediaResolved1 NoFault s)\<lparr>isRecording := False\<rparr>)"
    by (rule toggle_after_start1)
  show "heldStreams (effects (snd (toggleRecording1 s))) = heldStreams (effects s)"
    by (rule held_toggleRecording1)
  show "heldStreams (effects (ondataavailable1 chunk s)) = heldStreams (effects s)"
    by (rule held_ondataavailable1)
  show "heldStreams (effects (userMediaRejected1 s)) = heldStreams (effects s)"
    by (rule held_userMediaRejected1)
  show "heldStreams (effects (handleSendText net blocked s)) = heldStreams (effects s)"
    by (rule handleSendText_held)
next
  assume "heldStreams (effects s) = []"
  then show "heldStreams (effects (onstop1 net blocked (nextId s)
          (ondataavailable1 chunk (snd (toggleRecording1 (userMediaResolved1 NoFault s)))))) = []"
    by (simp add: held_onstop1 held_ondataavailable1 held_toggleRecording1
        held_userMediaResolved1)
qed

theorem C8_capture_released_witness:
  "heldStreams (effects init1) = []
   \<and> heldStreams (effects (userMediaResolved1 NoFault init1)) = [0]
   \<and> effects (onstopBegin1 0
        (ondataavailable1 recording (snd (toggleRecording1 (userMediaResolved1 NoFault init1)))))
       = [GetUserMedia 0, TrackStop 0,
          Fetch (chatRequest \<lparr>blobBytes = [82, 73, 70, 70], blobType = ''audio/wav''\<rparr>
                   ''recording.wav'')]
   \<and> heldStreams (effects (onstop1 (replyWith 200 (JsonObject helloData)) False 0
        (ondataavailable1 recording (snd (toggleRecording1 (userMediaResolved1 NoFault init1)))))) = []"
proof -
  have i: "heldStreams (effects init1) = []" "nextId init1 = 0"
    by (simp_all add: init1_def heldStreams_def)
  note c8 = C8_capture_released[where s = init1 and chunk = recording
      and net = "replyWith 200 (JsonObject helloData)" and blocked = False and stream = 0
      and result = Rejected and fault = NoFault]
  have "heldStreams (effects (userMediaResolved1 NoFault init1)) = heldStreams (effects init1) @ [nextId init1]"
    using c8 by (elim conjE) assumption
  then have "heldStreams (effects (userMediaResolved1 NoFault init1)) = [0]"
    using i by simp
  moreover have "heldStreams (effects init1) = [] \<longrightarrow>
        heldStreams (effects (onstop1 (replyWith 200 (JsonObject helloData)) False (nextId init1)
          (ondataavailable1 recording (snd (toggleRecording1 (userMediaResolved1 NoFault init1)))))) = []"
    using c8 by (elim conjE) assumption
  then have "heldStreams (effects (onstop1 (replyWith 200 (JsonObject helloData)) False 0
        (ondataavailable1 recording (snd (toggleRecording1 (userMediaResolved1 NoFault init1)))))) = []"
    using i by simp
  moreover have "effects (onstopBegin1 0
        (ondataavailable1 recording (snd (toggleRecording1 (userMediaResolved1 NoFault init1)))))
       = [GetUserMedia 0, TrackStop 0,
          Fetch (chatRequest \<lparr>blobBytes = [82, 73, 70, 70], blobType = ''audio/wav''\<rparr>
                   ''recording.wav'')]"
    by (simp add: onstopBegin1_def ondataavailable1_def toggleRecording1_def userMediaResolved1_def
        init1_def Let_def emit_def recording_def)
  ultimately show ?thesis
    using i by simp
qed

subsection \<open>The scenario of the spec\<close>

lemma hello_bytes: "decodeHexLoop ''48656c6c6f'' = [72, 101, 108, 108, 111]"
  by code_simp

text \<open>
  The reply \<^verbatim>\<open>{status: "success", transcript: "hello", response_text: "hi there", audio:
  "48656c6c6f"}\<close> to a recorded payload, in part\_000 from its initial state: the log becomes
  the user's \<^verbatim>\<open>hello\<close> and the assistant's \<^verbatim>\<open>hi there\<close>, and a playback resource is created
  from the bytes \<^verbatim>\<open>48 65 6C 6C 6F\<close> and started.
\<close>

lemma spec_scenario0:
  "messages (handleSendAudio0 (replyWith 200 (JsonObject helloData)) False (Some recording) init0)
     = [\<lparr>role = User, content = Some ''hello''\<rparr>, \<lparr>role = Assistant, content = Some ''hi there''\<rparr>]
   \<and> effects (handleSendAudio0 (replyWith 200 (JsonObject helloData)) False (Some recording) init0)
     = [Fetch (chatRequest recording ''recording.wav''),
        SetMessages [\<lparr>role = User, content = Some ''hello''\<rparr>,
                     \<lparr>role = Assistant, content = Some ''hi there''\<rparr>],
        CreateObjectURL 0 \<lparr>blobBytes = [0x48, 0x65, 0x6C, 0x6C, 0x6F], blobType = ''audio/wav''\<rparr>,
        AudioPlay 1]
   \<and> status (handleSendAudio0 (replyWith 200 (JsonObject helloData)) False (Some recording) init0)
     = Idle"
  by (simp add: handleSendAudio0_def sendAudioTry0_def replyWith_def helloData_def ok_def
      blobSize_def recording_def init0_def Let_def setMessages_def emit_def
      playAudioResponse_def hello_bytes)


end
